theory Spec2Isabelle
  imports Complex_Main
begin

section \<open>JavaScript values\<close>

text \<open>
  The dashboard and the insights view are JavaScript: every value they handle is dynamically
  typed data that came out of \<^verbatim>\<open>res.json()\<close>, a Firestore document or IndexedDB. The
  model keeps that: one datatype of values, with the coercions the source relies on
  (\<^verbatim>\<open>Number(x)\<close>, truthiness, \<^verbatim>\<open>typeof\<close>, \<^verbatim>\<open>in\<close>, property reads) written out.

  Numbers are the exact rationals extended by \<^verbatim>\<open>NaN\<close> and the two infinities. Rounding to
  IEEE doubles and the sign of zero are not represented: \<^verbatim>\<open>300 - 273.15\<close> is the
  rational \<open>26.85\<close>.
\<close>

datatype jsnum = NaN | NInf | Fin rat | PInf

text \<open>
  An object is the list of its own enumerable properties in the order \<^verbatim>\<open>Object.keys\<close>
  gives them (keys distinct); values are plain data, never functions. Strings are lists of
  characters with code below 256.
\<close>

datatype jsval =
    JUndef
  | JNull
  | JBool bool
  | JNum jsnum
  | JStr string
  | JArr "jsval list"
  | JObj "(string \<times> jsval) list"

text \<open>
  Exceptions: a TypeError of the language, or a rejected IndexedDB request.
\<close>

datatype exn = TypeError | StoreError

text \<open>
  Built-ins that read or write number and date syntax belong to the engine, not to the
  repository; they are parameters of the model. \<open>json_parse\<close> is \<^verbatim>\<open>JSON.parse\<close>
  (\<open>None\<close> when it throws a SyntaxError), \<open>str_to_num\<close> is \<^verbatim>\<open>Number\<close> on a string,
  \<open>num_to_str\<close> is \<^verbatim>\<open>String\<close> on a number, \<open>date_parse\<close> is \<^verbatim>\<open>Date.parse\<close> on a string.
\<close>

record host =
  json_parse :: "string \<Rightarrow> jsval option"
  str_to_num :: "string \<Rightarrow> jsnum"
  num_to_str :: "jsnum \<Rightarrow> string"
  date_parse :: "string \<Rightarrow> jsnum"

subsection \<open>Arithmetic and comparison on numbers\<close>

definition isNaN :: "jsnum \<Rightarrow> bool" where
  "isNaN n = (n = NaN)"

fun num_lt :: "jsnum \<Rightarrow> jsnum \<Rightarrow> bool" where
  "num_lt NaN _ = False"
| "num_lt _ NaN = False"
| "num_lt _ NInf = False"
| "num_lt NInf _ = True"
| "num_lt PInf _ = False"
| "num_lt (Fin a) PInf = True"
| "num_lt (Fin a) (Fin b) = (a < b)"

definition num_le :: "jsnum \<Rightarrow> jsnum \<Rightarrow> bool" where
  "num_le a b = (num_lt a b \<or> (a \<noteq> NaN \<and> a = b))"

fun num_neg :: "jsnum \<Rightarrow> jsnum" where
  "num_neg NaN = NaN"
| "num_neg NInf = PInf"
| "num_neg PInf = NInf"
| "num_neg (Fin a) = Fin (- a)"

fun num_add :: "jsnum \<Rightarrow> jsnum \<Rightarrow> jsnum" where
  "num_add NaN _ = NaN"
| "num_add _ NaN = NaN"
| "num_add PInf NInf = NaN"
| "num_add NInf PInf = NaN"
| "num_add PInf _ = PInf"
| "num_add _ PInf = PInf"
| "num_add NInf _ = NInf"
| "num_add _ NInf = NInf"
| "num_add (Fin a) (Fin b) = Fin (a + b)"

definition num_sub :: "jsnum \<Rightarrow> jsnum \<Rightarrow> jsnum" where
  "num_sub a b = num_add a (num_neg b)"

fun num_mul :: "jsnum \<Rightarrow> jsnum \<Rightarrow> jsnum" where
  "num_mul NaN _ = NaN"
| "num_mul _ NaN = NaN"
| "num_mul (Fin a) (Fin b) = Fin (a * b)"
| "num_mul (Fin a) b = (if a = 0 then NaN else if 0 < a then b else num_neg b)"
| "num_mul a (Fin b) = (if b = 0 then NaN else if 0 < b then a else num_neg a)"
| "num_mul a b = (if a = b then PInf else NInf)"

text \<open>\<^verbatim>\<open>x / xs.length\<close>: division of a number by a length.\<close>

fun num_div_len :: "jsnum \<Rightarrow> nat \<Rightarrow> jsnum" where
  "num_div_len NaN n = NaN"
| "num_div_len PInf n = PInf"
| "num_div_len NInf n = NInf"
| "num_div_len (Fin a) n =
     (if n = 0 then (if a = 0 then NaN else if 0 < a then PInf else NInf)
      else Fin (a / of_nat n))"

subsection \<open>Coercions and property access\<close>

fun truthy :: "jsval \<Rightarrow> bool" where
  "truthy JUndef = False"
| "truthy JNull = False"
| "truthy (JBool b) = b"
| "truthy (JNum n) = (n \<noteq> NaN \<and> n \<noteq> Fin 0)"
| "truthy (JStr s) = (s \<noteq> [])"
| "truthy (JArr xs) = True"
| "truthy (JObj kvs) = True"

fun is_array :: "jsval \<Rightarrow> bool" where
  "is_array (JArr xs) = True"
| "is_array _ = False"

text \<open>\<^verbatim>\<open>typeof v === "object"\<close>: true of \<^verbatim>\<open>null\<close>, arrays and objects.\<close>

fun typeof_object :: "jsval \<Rightarrow> bool" where
  "typeof_object JNull = True"
| "typeof_object (JArr xs) = True"
| "typeof_object (JObj kvs) = True"
| "typeof_object _ = False"

definition lookup :: "(string \<times> jsval) list \<Rightarrow> string \<Rightarrow> jsval" where
  "lookup kvs k = (case map_of kvs k of None \<Rightarrow> JUndef | Some v \<Rightarrow> v)"

text \<open>
  \<^verbatim>\<open>v.k\<close> for the property names the program reads, on a value that is neither \<^verbatim>\<open>null\<close>
  nor \<^verbatim>\<open>undefined\<close>: arrays and strings answer \<^verbatim>\<open>length\<close>; none of the other names the
  program reads is defined on an array, a primitive or a prototype.
\<close>

fun read_prop :: "jsval \<Rightarrow> string \<Rightarrow> jsval" where
  "read_prop (JObj kvs) k = lookup kvs k"
| "read_prop (JArr xs) k = (if k = ''length'' then JNum (Fin (of_nat (length xs))) else JUndef)"
| "read_prop (JStr s) k = (if k = ''length'' then JNum (Fin (of_nat (length s))) else JUndef)"
| "read_prop _ k = JUndef"

text \<open>\<^verbatim>\<open>v.k\<close> on any value: reading a property of \<^verbatim>\<open>null\<close> or \<^verbatim>\<open>undefined\<close> throws.\<close>

definition get_prop :: "jsval \<Rightarrow> string \<Rightarrow> exn + jsval" where
  "get_prop v k = (if v = JUndef \<or> v = JNull then Inl TypeError else Inr (read_prop v k))"

text \<open>Decimal digits of an index, the key under which an object would hold it.\<close>

fun index_key :: "nat \<Rightarrow> string" where
  "index_key n =
     (if n < 10 then [char_of (48 + n)]
      else index_key (n div 10) @ [char_of (48 + n mod 10)])"

declare index_key.simps [simp del]

text \<open>\<^verbatim>\<open>v[i]\<close> for a number index \<open>i\<close>.\<close>

fun get_index :: "jsval \<Rightarrow> nat \<Rightarrow> exn + jsval" where
  "get_index JUndef i = Inl TypeError"
| "get_index JNull i = Inl TypeError"
| "get_index (JArr xs) i = Inr (if i < length xs then xs ! i else JUndef)"
| "get_index (JStr s) i = Inr (if i < length s then JStr [s ! i] else JUndef)"
| "get_index (JObj kvs) i = Inr (lookup kvs (index_key i))"
| "get_index _ i = Inr JUndef"

text \<open>
  \<^verbatim>\<open>k in v\<close> for the property names the program tests: a TypeError unless \<open>v\<close> is an
  object; an array has none of those names.
\<close>

fun has_prop :: "string \<Rightarrow> jsval \<Rightarrow> exn + bool" where
  "has_prop k (JObj kvs) = Inr (k \<in> set (map fst kvs))"
| "has_prop k (JArr xs) = Inr False"
| "has_prop k _ = Inl TypeError"

text \<open>
  \<^verbatim>\<open>Object.keys(v)\<close> paired with the values \<^verbatim>\<open>v[k]\<close> the loops read next: a TypeError on
  \<^verbatim>\<open>null\<close> and \<^verbatim>\<open>undefined\<close>, the indices of an array or a string, nothing for a number
  or a boolean.
\<close>

fun own_entries :: "jsval \<Rightarrow> exn + (string \<times> jsval) list" where
  "own_entries JUndef = Inl TypeError"
| "own_entries JNull = Inl TypeError"
| "own_entries (JObj kvs) = Inr kvs"
| "own_entries (JArr xs) = Inr (map (\<lambda>i. (index_key i, xs ! i)) [0..<length xs])"
| "own_entries (JStr s) = Inr (map (\<lambda>i. (index_key i, JStr [s ! i])) [0..<length s])"
| "own_entries _ = Inr []"

fun join_strs :: "(exn + string) list \<Rightarrow> exn + string" where
  "join_strs [] = Inr []"
| "join_strs [r] = r"
| "join_strs (r # rs) =
     (case r of Inl e \<Rightarrow> Inl e
      | Inr s \<Rightarrow> (case join_strs rs of Inl e \<Rightarrow> Inl e | Inr t \<Rightarrow> Inr (s @ '','' @ t)))"

text \<open>
  \<^verbatim>\<open>String(v)\<close>. An array joins its elements with commas (\<^verbatim>\<open>null\<close> and \<^verbatim>\<open>undefined\<close>
  as the empty string). A plain object prints as \<^verbatim>\<open>[object Object]\<close>, unless it has an
  own property \<^verbatim>\<open>toString\<close>: that value is not callable, and the conversion throws.
\<close>

fun to_string :: "host \<Rightarrow> jsval \<Rightarrow> exn + string" where
  "to_string h JUndef = Inr ''undefined''"
| "to_string h JNull = Inr ''null''"
| "to_string h (JBool b) = Inr (if b then ''true'' else ''false'')"
| "to_string h (JNum n) = Inr (num_to_str h n)"
| "to_string h (JStr s) = Inr s"
| "to_string h (JArr xs) =
     join_strs (map (\<lambda>x. if x = JUndef \<or> x = JNull then Inr [] else to_string h x) xs)"
| "to_string h (JObj kvs) =
     (if ''toString'' \<in> set (map fst kvs) then Inl TypeError else Inr ''[object Object]'')"

text \<open>\<^verbatim>\<open>Number(v)\<close>; arrays and objects go through their string form.\<close>

fun to_number :: "host \<Rightarrow> jsval \<Rightarrow> exn + jsnum" where
  "to_number h JUndef = Inr NaN"
| "to_number h JNull = Inr (Fin 0)"
| "to_number h (JBool b) = Inr (Fin (if b then 1 else 0))"
| "to_number h (JNum n) = Inr n"
| "to_number h (JStr s) = Inr (str_to_num h s)"
| "to_number h v =
     (case to_string h v of Inl e \<Rightarrow> Inl e | Inr s \<Rightarrow> Inr (str_to_num h s))"

subsection \<open>Exceptions as values\<close>

definition ebind :: "exn + 'a \<Rightarrow> ('a \<Rightarrow> exn + 'b) \<Rightarrow> exn + 'b" where
  "ebind m f = (case m of Inl e \<Rightarrow> Inl e | Inr x \<Rightarrow> f x)"

text \<open>\<^verbatim>\<open>xs.map(f)\<close> where \<open>f\<close> may throw: the first exception ends the loop.\<close>

fun emap :: "('a \<Rightarrow> exn + 'b) \<Rightarrow> 'a list \<Rightarrow> exn + 'b list" where
  "emap f [] = Inr []"
| "emap f (x # xs) = ebind (f x) (\<lambda>y. ebind (emap f xs) (\<lambda>ys. Inr (y # ys)))"

section \<open>Coordinate order resolver: \<^verbatim>\<open>parseCoords\<close> (FarmDashboard.js)\<close>

subsection \<open>String helpers of the \<^verbatim>\<open>"lat,lng;lat,lng"\<close> fallback\<close>

text \<open>\<^verbatim>\<open>s.split(c)\<close> for a one-character separator.\<close>

fun split_on :: "char \<Rightarrow> string \<Rightarrow> string list" where
  "split_on c [] = [[]]"
| "split_on c (x # xs) =
     (if x = c then [] # split_on c xs
      else (case split_on c xs of [] \<Rightarrow> [[x]] | y # ys \<Rightarrow> (x # y) # ys))"

text \<open>White space and line terminators with code below 256.\<close>

definition is_space :: "char \<Rightarrow> bool" where
  "is_space c = (of_char c \<in> {9, 10, 11, 12, 13, 32, 160 :: nat})"

definition trim :: "string \<Rightarrow> string" where
  "trim s = rev (dropWhile is_space (rev (dropWhile is_space s)))"

text \<open>\<^verbatim>\<open>const [a, b] = pr.split(",").map(Number); return [b, a];\<close>\<close>

definition text_pair :: "host \<Rightarrow> string \<Rightarrow> jsval" where
  "text_pair h pr =
     (case map (str_to_num h) (split_on CHR '','' pr) of
        [] \<Rightarrow> JArr [JUndef, JUndef]
      | [a] \<Rightarrow> JArr [JUndef, JNum a]
      | a # b # _ \<Rightarrow> JArr [JNum b, JNum a])"

text \<open>The \<^verbatim>\<open>catch\<close> block (lines 121-133): what a string yields when parsing it failed.\<close>

definition parseCoords_text :: "host \<Rightarrow> string \<Rightarrow> jsval" where
  "parseCoords_text h coords =
     (if CHR '','' \<in> set coords
      then JArr (map (text_pair h) (map trim (split_on CHR '';'' coords)))
      else JArr [])"

subsection \<open>Arrays\<close>

text \<open>\<^verbatim>\<open>(p) => [Number(p[1]), Number(p[0])]\<close> and \<^verbatim>\<open>(p) => [Number(p[0]), Number(p[1])]\<close>\<close>

definition swap_pair :: "host \<Rightarrow> jsval \<Rightarrow> exn + jsval" where
  "swap_pair h p =
     ebind (get_index p 1) (\<lambda>p1. ebind (to_number h p1) (\<lambda>y.
     ebind (get_index p 0) (\<lambda>p0. ebind (to_number h p0) (\<lambda>x.
       Inr (JArr [JNum y, JNum x])))))"

definition keep_pair :: "host \<Rightarrow> jsval \<Rightarrow> exn + jsval" where
  "keep_pair h p =
     ebind (get_index p 0) (\<lambda>p0. ebind (to_number h p0) (\<lambda>x.
     ebind (get_index p 1) (\<lambda>p1. ebind (to_number h p1) (\<lambda>y.
       Inr (JArr [JNum x, JNum y])))))"

text \<open>\<^verbatim>\<open>a >= -90 && a <= 90 && b >= -180 && b <= 180\<close>\<close>

definition lat_lng_range :: "jsnum \<Rightarrow> jsnum \<Rightarrow> bool" where
  "lat_lng_range a b =
     (num_le (Fin (- 90)) a \<and> num_le a (Fin 90) \<and> num_le (Fin (- 180)) b \<and> num_le b (Fin 180))"

text \<open>
  Lines 144-157, nested arrays. \<open>None\<close> is falling out of the block: the first element is
  no array, or one of its two coordinates is \<^verbatim>\<open>NaN\<close>.
\<close>

definition nested_pairs :: "host \<Rightarrow> jsval list \<Rightarrow> exn + jsval option" where
  "nested_pairs h coords =
     (case coords of
        [] \<Rightarrow> Inr None
      | first # _ \<Rightarrow>
          if is_array first then
            ebind (get_index first 0) (\<lambda>f0. ebind (to_number h f0) (\<lambda>a.
            ebind (get_index first 1) (\<lambda>f1. ebind (to_number h f1) (\<lambda>b.
              if \<not> isNaN a \<and> \<not> isNaN b then
                if lat_lng_range a b
                then ebind (emap (swap_pair h) coords) (\<lambda>ps. Inr (Some (JArr ps)))
                else ebind (emap (keep_pair h) coords) (\<lambda>ps. Inr (Some (JArr ps)))
              else Inr None))))
          else Inr None)"

text \<open>\<^verbatim>\<open>(pt) => [Number(pt.a), Number(pt.b)]\<close> for two property names.\<close>

definition named_pair :: "host \<Rightarrow> string \<Rightarrow> string \<Rightarrow> jsval \<Rightarrow> exn + jsval" where
  "named_pair h ka kb pt =
     ebind (get_prop pt ka) (\<lambda>va. ebind (to_number h va) (\<lambda>x.
     ebind (get_prop pt kb) (\<lambda>vb. ebind (to_number h vb) (\<lambda>y.
       Inr (JArr [JNum x, JNum y])))))"

text \<open>Lines 169-178: two numeric fields of a point in key order, second one first.\<close>

definition guess_pair :: "host \<Rightarrow> jsval \<Rightarrow> exn + jsval" where
  "guess_pair h pt =
     ebind (own_entries pt) (\<lambda>kvs.
     ebind (emap (\<lambda>kv. to_number h (snd kv)) kvs) (\<lambda>ns.
       Inr (case filter (\<lambda>v. \<not> isNaN v) ns of
              a # b # _ \<Rightarrow> JArr [JNum b, JNum a]
            | _ \<Rightarrow> JArr [])))"

fun arr_length :: "jsval \<Rightarrow> nat" where
  "arr_length (JArr xs) = length xs"
| "arr_length _ = 0"

text \<open>\<^verbatim>\<open>"a" in v && "b" in v\<close>\<close>

definition has_both :: "string \<Rightarrow> string \<Rightarrow> jsval \<Rightarrow> exn + bool" where
  "has_both ka kb v = ebind (has_prop ka v) (\<lambda>a. if a then has_prop kb v else Inr False)"

text \<open>Lines 160-180, arrays of objects. \<open>None\<close> is falling out of the block.\<close>

definition object_points :: "host \<Rightarrow> jsval list \<Rightarrow> exn + jsval option" where
  "object_points h coords =
     (case coords of
        [] \<Rightarrow> Inr None
      | first # _ \<Rightarrow>
          if typeof_object first then
            ebind (has_both ''lat'' ''lng'' first) (\<lambda>ll.
              if ll then ebind (emap (named_pair h ''lng'' ''lat'') coords) (\<lambda>ps. Inr (Some (JArr ps)))
              else ebind (has_both ''latitude'' ''longitude'' first) (\<lambda>geo.
                if geo
                then ebind (emap (named_pair h ''longitude'' ''latitude'') coords)
                       (\<lambda>ps. Inr (Some (JArr ps)))
                else ebind (emap (guess_pair h) coords)
                       (\<lambda>ps. Inr (Some (JArr (filter (\<lambda>p. arr_length p = 2) ps))))))
          else Inr None)"

text \<open>Lines 142-184: the array case, with the unknown array shape returned as it is.\<close>

definition parseCoords_array :: "host \<Rightarrow> jsval list \<Rightarrow> exn + jsval" where
  "parseCoords_array h coords =
     ebind (nested_pairs h coords) (\<lambda>r. case r of
        Some v \<Rightarrow> Inr v
      | None \<Rightarrow> ebind (object_points h coords) (\<lambda>r'. case r' of
          Some v \<Rightarrow> Inr v
        | None \<Rightarrow> Inr (JArr coords)))"

text \<open>Lines 136-187: every truthy value that is not a string.\<close>

definition parseCoords_value :: "host \<Rightarrow> jsval \<Rightarrow> exn + jsval" where
  "parseCoords_value h coords =
     ebind (if truthy coords \<and> typeof_object coords
            then has_both ''latitude'' ''longitude'' coords else Inr False) (\<lambda>geo.
       if geo then
         ebind (get_prop coords ''longitude'') (\<lambda>lng.
         ebind (get_prop coords ''latitude'') (\<lambda>lat. Inr (JArr [JArr [lng, lat]])))
       else (case coords of
               JArr xs \<Rightarrow> parseCoords_array h xs
             | _ \<Rightarrow> Inr (JArr [])))"

fun str_of :: "jsval \<Rightarrow> string option" where
  "str_of (JStr s) = Some s"
| "str_of _ = None"

text \<open>
  \<^verbatim>\<open>parseCoords\<close>. A string is parsed as JSON and the function calls itself on the result,
  inside the \<^verbatim>\<open>try\<close>: an exception of that call is caught like a syntax error. The
  recursion ends because \<^verbatim>\<open>JSON.parse\<close> returns a string shorter than its input; for an
  arbitrary \<open>json_parse\<close> it need not, so the result is an option, \<open>None\<close> for a call
  that does not return. \<open>Some (Inl e)\<close> is a thrown exception, \<open>Some (Inr v)\<close> a result.
\<close>

partial_function (option) parseCoords :: "host \<Rightarrow> jsval \<Rightarrow> (exn + jsval) option" where
  "parseCoords h coords =
     (if \<not> truthy coords then Some (Inr (JArr []))
      else (case str_of coords of
              Some s \<Rightarrow>
                (case json_parse h s of
                   None \<Rightarrow> Some (Inr (parseCoords_text h s))
                 | Some parsed \<Rightarrow>
                     Option.bind (parseCoords h parsed) (\<lambda>r. case r of
                        Inl e \<Rightarrow> Some (Inr (parseCoords_text h s))
                      | Inr v \<Rightarrow> Some (Inr v)))
            | None \<Rightarrow> Some (parseCoords_value h coords)))"

declare parseCoords.simps [code]

subsection \<open>Numeric pairs (the inputs of claim C1)\<close>

fun numeric_pair :: "jsval \<Rightarrow> bool" where
  "numeric_pair (JArr [JNum x, JNum y]) = (x \<noteq> NaN \<and> y \<noteq> NaN)"
| "numeric_pair _ = False"

fun swap_axes :: "jsval \<Rightarrow> jsval" where
  "swap_axes (JArr [x, y]) = JArr [y, x]"
| "swap_axes v = v"


section \<open>Metric series normalizer: \<^verbatim>\<open>normalizeAnalytics\<close> (FarmDashboard.js)\<close>

text \<open>\<^verbatim>\<open>out[k] = v\<close> on the copy: an own key keeps its place, a new name goes last.\<close>

fun set_prop :: "(string \<times> jsval) list \<Rightarrow> string \<Rightarrow> jsval \<Rightarrow> (string \<times> jsval) list" where
  "set_prop [] k v = [(k, v)]"
| "set_prop ((k', v') # kvs) k v =
     (if k' = k then (k, v) # kvs else (k', v') # set_prop kvs k v)"

subsection \<open>Location promotion (lines 200-211)\<close>

text \<open>\<^verbatim>\<open>!v || !v.length\<close>\<close>

definition lacks_items :: "jsval \<Rightarrow> bool" where
  "lacks_items v = (\<not> truthy v \<or> \<not> truthy (read_prop v ''length''))"

text \<open>\<^verbatim>\<open>out.g && Array.isArray(out.g.k)\<close>, with the array when the test holds.\<close>

definition nested_array :: "(string \<times> jsval) list \<Rightarrow> string \<Rightarrow> string \<Rightarrow> jsval option" where
  "nested_array out g k =
     (if truthy (lookup out g) \<and> is_array (read_prop (lookup out g) k)
      then Some (read_prop (lookup out g) k) else None)"

definition promote ::
  "(string \<times> jsval) list \<Rightarrow> string \<Rightarrow> string \<Rightarrow> string \<Rightarrow> (string \<times> jsval) list" where
  "promote out k g nk =
     (if lacks_items (lookup out k)
      then (case nested_array out g nk of Some a \<Rightarrow> set_prop out k a | None \<Rightarrow> out)
      else out)"

subsection \<open>Field-name reconciliation and unit inference (lines 214-308)\<close>

text \<open>
  The loop \<^verbatim>\<open>for (const k of Object.keys(d))\<close>: the first field other than \<^verbatim>\<open>date\<close> whose
  \<^verbatim>\<open>Number\<close> is not \<^verbatim>\<open>NaN\<close>; \<open>None\<close> when the loop ends without one.
\<close>

fun first_numeric :: "host \<Rightarrow> (string \<times> jsval) list \<Rightarrow> exn + jsnum option" where
  "first_numeric h [] = Inr None"
| "first_numeric h ((k, v) # kvs) =
     (if k = ''date'' then first_numeric h kvs
      else ebind (to_number h v) (\<lambda>n.
             if \<not> isNaN n then Inr (Some n) else first_numeric h kvs))"

text \<open>
  \<^verbatim>\<open>let val = null; if ("k" in d) val = Number(d.k); else { the loop }\<close>: the value of a
  sample under one accepted name, else its first numeric field. \<open>None\<close> is \<^verbatim>\<open>null\<close>.
\<close>

definition named_or_first :: "host \<Rightarrow> string \<Rightarrow> jsval \<Rightarrow> exn + jsnum option" where
  "named_or_first h k d =
     ebind (has_prop k d) (\<lambda>named.
       if named then ebind (to_number h (read_prop d k)) (\<lambda>n. Inr (Some n))
       else ebind (own_entries d) (first_numeric h))"

text \<open>Lines 219-232: \<^verbatim>\<open>temp\<close>, then \<^verbatim>\<open>temperature\<close>, then the first numeric field.\<close>

definition temp_value :: "host \<Rightarrow> jsval \<Rightarrow> exn + jsnum option" where
  "temp_value h d =
     ebind (has_prop ''temp'' d) (\<lambda>named.
       if named then ebind (to_number h (read_prop d ''temp'')) (\<lambda>n. Inr (Some n))
       else named_or_first h ''temperature'' d)"

text \<open>Lines 215-239, one sample of \<^verbatim>\<open>out.temperature\<close>.\<close>

definition temperature_sample :: "host \<Rightarrow> jsval \<Rightarrow> exn + jsval" where
  "temperature_sample h d =
     (if \<not> truthy d then Inr d
      else ebind (temp_value h d) (\<lambda>val. case val of
             None \<Rightarrow> Inr d
           | Some v \<Rightarrow>
               if isNaN v then Inr d
               else Inr (JObj [(''date'', read_prop d ''date''),
                               (''temp'', JNum (if num_lt (Fin 100) v
                                                then num_sub v (Fin 273.15) else v))])))"

text \<open>Lines 246-269, one sample of \<^verbatim>\<open>out.soil_temperature\<close>.\<close>

definition soil_temperature_sample :: "host \<Rightarrow> jsval \<Rightarrow> exn + jsval" where
  "soil_temperature_sample h d =
     (if \<not> truthy d then Inr d
      else ebind (has_prop ''soil_temp'' d) (\<lambda>named.
        if named then
          ebind (to_number h (read_prop d ''soil_temp'')) (\<lambda>v.
            Inr (JObj [(''date'', read_prop d ''date''),
                       (''soil_temp'', if isNaN v then JNull
                                       else JNum (if num_lt (Fin 100) v
                                                  then num_sub v (Fin 273.15) else v))]))
        else
          ebind (named_or_first h ''st'' d) (\<lambda>val. case val of
             None \<Rightarrow> Inr (JObj [(''date'', read_prop d ''date''), (''soil_temp'', JNull)])
           | Some v \<Rightarrow>
               if isNaN v
               then Inr (JObj [(''date'', read_prop d ''date''), (''soil_temp'', JNull)])
               else Inr (JObj [(''date'', read_prop d ''date''),
                               (''soil_temp'', JNum (if num_lt (Fin 100) v
                                                     then num_sub v (Fin 273.15) else v))]))))"

text \<open>Lines 274-291, one sample of \<^verbatim>\<open>out.canopy_temperature\<close>.\<close>

definition canopy_temperature_sample :: "host \<Rightarrow> jsval \<Rightarrow> exn + jsval" where
  "canopy_temperature_sample h d =
     (if \<not> truthy d then Inr d
      else ebind (named_or_first h ''canopy_temp'' d) (\<lambda>val. case val of
             None \<Rightarrow> Inr (JObj [(''date'', read_prop d ''date''), (''canopy_temp'', JNull)])
           | Some v \<Rightarrow>
               if isNaN v
               then Inr (JObj [(''date'', read_prop d ''date''), (''canopy_temp'', JNull)])
               else Inr (JObj [(''date'', read_prop d ''date''),
                               (''canopy_temp'', JNum (if num_lt (Fin 100) v
                                                       then num_sub v (Fin 273.15) else v))])))"

text \<open>Lines 296-307, one sample of \<^verbatim>\<open>out.rainfall\<close>.\<close>

definition rainfall_sample :: "host \<Rightarrow> jsval \<Rightarrow> exn + jsval" where
  "rainfall_sample h d =
     (if \<not> truthy d then Inr d
      else ebind (has_prop ''rain_mm'' d) (\<lambda>mm.
        if mm then Inr d
        else ebind (has_prop ''rain'' d) (\<lambda>rain.
          if rain then
            ebind (to_number h (read_prop d ''rain'')) (\<lambda>n.
              Inr (JObj [(''date'', read_prop d ''date''), (''rain_mm'', JNum n)]))
          else
            ebind (own_entries d) (\<lambda>kvs. ebind (first_numeric h kvs) (\<lambda>val. case val of
               None \<Rightarrow> Inr (JObj [(''date'', read_prop d ''date''), (''rain_mm'', JNull)])
             | Some n \<Rightarrow> Inr (JObj [(''date'', read_prop d ''date''), (''rain_mm'', JNum n)]))))))"

text \<open>
  \<^verbatim>\<open>if (Array.isArray(out.k)) out.k = out.k.map(f); else out.k = [];\<close>
\<close>

definition map_series ::
  "(jsval \<Rightarrow> exn + jsval) \<Rightarrow> string \<Rightarrow> (string \<times> jsval) list \<Rightarrow> exn + (string \<times> jsval) list" where
  "map_series f k out =
     (case lookup out k of
        JArr xs \<Rightarrow> ebind (emap f xs) (\<lambda>ys. Inr (set_prop out k (JArr ys)))
      | _ \<Rightarrow> Inr (set_prop out k (JArr [])))"

subsection \<open>Defaults (lines 310-334)\<close>

definition expectedArrays :: "string list" where
  "expectedArrays =
     [''ndvi_timeseries'', ''evi_timeseries'', ''gndvi_timeseries'', ''savi_timeseries'',
      ''ndwi_timeseries'', ''msavi_timeseries'', ''arvi_timeseries'', ''lai_timeseries'',
      ''chlorophyll_index'', ''water_stress_index'', ''biomass_proxy'', ''canopy_fraction'',
      ''soil_moisture'']"

text \<open>\<^verbatim>\<open>if (!Array.isArray(out[k])) out[k] = [];\<close>\<close>

definition ensure_array :: "(string \<times> jsval) list \<Rightarrow> string \<Rightarrow> (string \<times> jsval) list" where
  "ensure_array out k = (if is_array (lookup out k) then out else set_prop out k (JArr []))"

text \<open>
  \<^verbatim>\<open>if (!out.soil_profile) out.soil_profile = out.soil ? out.soil.profile || {} : {};\<close>
\<close>

definition ensure_soil_profile :: "(string \<times> jsval) list \<Rightarrow> (string \<times> jsval) list" where
  "ensure_soil_profile out =
     (if truthy (lookup out ''soil_profile'') then out
      else set_prop out ''soil_profile''
             (if truthy (lookup out ''soil'')
              then (if truthy (read_prop (lookup out ''soil'') ''profile'')
                    then read_prop (lookup out ''soil'') ''profile'' else JObj [])
              else JObj []))"

text \<open>\<^verbatim>\<open>if (!out.alerts) out.alerts = { frost: [], heat: [] };\<close>\<close>

definition ensure_alerts :: "(string \<times> jsval) list \<Rightarrow> (string \<times> jsval) list" where
  "ensure_alerts out =
     (if truthy (lookup out ''alerts'') then out
      else set_prop out ''alerts'' (JObj [(''frost'', JArr []), (''heat'', JArr [])]))"

subsection \<open>The normalizer (lines 194-337)\<close>

text \<open>
  \<^verbatim>\<open>{ ...raw }\<close> copies the own properties of an object, or the elements of an array under
  their indices. A sample that is a truthy primitive makes \<^verbatim>\<open>"temp" in d\<close> throw, and the
  exception leaves the function.
\<close>

definition normalizeAnalytics :: "host \<Rightarrow> jsval \<Rightarrow> exn + jsval" where
  "normalizeAnalytics h raw =
     (if \<not> truthy raw \<or> \<not> typeof_object raw then Inr JNull
      else
        ebind (own_entries raw) (\<lambda>out0.
        ebind (map_series (temperature_sample h) ''temperature''
                 (promote
                   (promote
                     (promote
                       (promote out0 ''temperature'' ''weather'' ''temperature'')
                       ''rainfall'' ''weather'' ''rainfall'')
                     ''soil_moisture'' ''soil'' ''moisture'')
                   ''soil_temperature'' ''soil'' ''temperature'')) (\<lambda>out1.
        ebind (map_series (soil_temperature_sample h) ''soil_temperature'' out1) (\<lambda>out2.
        ebind (map_series (canopy_temperature_sample h) ''canopy_temperature'' out2) (\<lambda>out3.
        ebind (map_series (rainfall_sample h) ''rainfall'' out3) (\<lambda>out4.
          Inr (JObj (ensure_alerts (ensure_soil_profile
                 (foldl ensure_array out4 expectedArrays))))))))))"

subsection \<open>Unit inference as the specification words it (claim C3)\<close>


subsection \<open>Inputs without metrics (claim C4)\<close>

text \<open>The keys under which the normalizer leaves a time series.\<close>

definition series_keys :: "string list" where
  "series_keys =
     [''temperature'', ''soil_temperature'', ''canopy_temperature'', ''rainfall''] @ expectedArrays"

text \<open>
  The \<^verbatim>\<open>weather\<close> and \<^verbatim>\<open>soil\<close> groupings of the input hold nothing the normalizer would
  promote: no array \<^verbatim>\<open>weather.temperature\<close>, \<^verbatim>\<open>weather.rainfall\<close>, \<^verbatim>\<open>soil.moisture\<close>,
  \<^verbatim>\<open>soil.temperature\<close>, and no truthy \<^verbatim>\<open>soil.profile\<close>.
\<close>

definition no_nested_metrics :: "(string \<times> jsval) list \<Rightarrow> bool" where
  "no_nested_metrics raw =
     (nested_array raw ''weather'' ''temperature'' = None \<and>
      nested_array raw ''weather'' ''rainfall'' = None \<and>
      nested_array raw ''soil'' ''moisture'' = None \<and>
      nested_array raw ''soil'' ''temperature'' = None \<and>
      \<not> (truthy (lookup raw ''soil'') \<and> truthy (read_prop (lookup raw ''soil'') ''profile'')))"

text \<open>The copy after lines 214-308 when none of the four series is an array.\<close>

definition with_series :: "(string \<times> jsval) list \<Rightarrow> (string \<times> jsval) list" where
  "with_series raw =
     set_prop (set_prop (set_prop (set_prop raw ''temperature'' (JArr []))
       ''soil_temperature'' (JArr [])) ''canopy_temperature'' (JArr [])) ''rainfall'' (JArr [])"

subsection \<open>Inputs of claim C6\<close>


text \<open>
  An array of no shape the resolver knows: empty, or with a first element that is neither
  an array nor of type \<^verbatim>\<open>object\<close>.
\<close>

definition unknown_shape :: "jsval list \<Rightarrow> bool" where
  "unknown_shape xs = (case xs of [] \<Rightarrow> True | x # _ \<Rightarrow> \<not> is_array x \<and> \<not> typeof_object x)"



section \<open>Reconciliation in the dashboard: \<^verbatim>\<open>fetchAnalytics\<close> (FarmDashboard.js)\<close>

text \<open>
  The component state the function reads and writes: the in-memory cache
  \<^verbatim>\<open>analyticsCacheRef.current\<close> (an object from cache key to entry) and the React state
  \<^verbatim>\<open>analytics\<close>, \<^verbatim>\<open>loading\<close>, \<^verbatim>\<open>updatingLabel\<close>.
\<close>

record dashboard =
  cache :: "(string \<times> jsval) list"
  analytics :: jsval
  loading :: bool
  updatingLabel :: string

text \<open>
  What a run does to the outside, in order: the request posted to the provider, a call of
  the normalizer on a reply, an \<^verbatim>\<open>alert\<close>.
\<close>

datatype effect = Fetch jsval | Normalize jsval | Alert string

fun is_fetch :: "effect \<Rightarrow> bool" where
  "is_fetch (Fetch b) = True"
| "is_fetch _ = False"

text \<open>\<^verbatim>\<open>`${id}_${start}_${end}`\<close>\<close>

definition cache_key :: "string \<Rightarrow> string \<Rightarrow> string \<Rightarrow> string" where
  "cache_key farm_id start_date end_date = farm_id @ ''_'' @ start_date @ ''_'' @ end_date"

text \<open>The body of the POST (lines 537-543).\<close>

definition request_body :: "jsval \<Rightarrow> string \<Rightarrow> string \<Rightarrow> string \<Rightarrow> bool \<Rightarrow> jsval" where
  "request_body cleanCoords start_date end_date farm_id forceRefresh =
     JObj [(''coordinates'', cleanCoords), (''start_date'', JStr start_date),
           (''end_date'', JStr end_date), (''farm_id'', JStr farm_id),
           (''force_refresh'', JBool forceRefresh)]"

definition fetch_failed :: string where
  "fetch_failed = ''Failed to fetch analytics (check console).''"

text \<open>\<^verbatim>\<open>{ ...v }\<close>: nothing for \<^verbatim>\<open>null\<close> and \<^verbatim>\<open>undefined\<close>, the own properties otherwise.\<close>

definition spread :: "jsval \<Rightarrow> (string \<times> jsval) list" where
  "spread v = (case own_entries v of Inl e \<Rightarrow> [] | Inr kvs \<Rightarrow> kvs)"

text \<open>
  Lines 546-572, from the parsed reply \<open>data\<close> on. \<open>mounted\<close> is \<^verbatim>\<open>isMounted.current\<close> when
  the reply arrives. Every \<open>Inl\<close> branch is the \<^verbatim>\<open>catch\<close> block of line 573: an exception
  of \<^verbatim>\<open>data.error\<close> (a \<^verbatim>\<open>null\<close> reply), of the string concatenation or of the normalizer
  ends in the alert of line 575.
\<close>

definition handle_reply ::
  "host \<Rightarrow> bool \<Rightarrow> bool \<Rightarrow> string \<Rightarrow> string \<Rightarrow> string \<Rightarrow> jsval \<Rightarrow> dashboard
     \<Rightarrow> dashboard \<times> effect list" where
  "handle_reply h mounted showLabel key start_date end_date data st =
     (case get_prop data ''error'' of
        Inl e \<Rightarrow> (st, [Alert fetch_failed])
      | Inr err \<Rightarrow>
          if truthy err then
            (case to_string h err of
               Inl e \<Rightarrow> (st, [Alert fetch_failed])
             | Inr msg \<Rightarrow> (st, [Alert (''Server error: '' @ msg)]))
          else
            (case normalizeAnalytics h data of
               Inl e \<Rightarrow> (st, [Normalize data, Alert fetch_failed])
             | Inr normalized \<Rightarrow>
                 (if mounted
                  then st\<lparr>analytics := JObj (spread normalized),
                          cache := set_prop (cache st) key normalized,
                          updatingLabel :=
                            (if showLabel
                             then ''Analysis complete between '' @ start_date @ '' and '' @ end_date
                             else updatingLabel st)\<rparr>
                  else st,
                  [Normalize data])))"

text \<open>
  Lines 521-578, with the coordinates already resolved. \<open>reply\<close> is what
  \<^verbatim>\<open>await fetch(...)\<close> and \<^verbatim>\<open>await res.json()\<close> deliver: \<open>None\<close> when either rejects.
  The timer that clears the label 2.4 s later is not part of the run.
\<close>

definition fetch_resolved ::
  "host \<Rightarrow> string \<Rightarrow> jsval option \<Rightarrow> bool \<Rightarrow> jsval \<Rightarrow> string \<Rightarrow> string \<Rightarrow> bool \<Rightarrow> bool
     \<Rightarrow> dashboard \<Rightarrow> dashboard \<times> effect list" where
  "fetch_resolved h farm_id reply mounted cleanCoords start_date end_date showLabel forceRefresh st =
     (if \<not> forceRefresh \<and> truthy (lookup (cache st) (cache_key farm_id start_date end_date))
      then (st\<lparr>analytics := lookup (cache st) (cache_key farm_id start_date end_date)\<rparr>, [])
      else
        (case (case reply of
                 None \<Rightarrow>
                   (st\<lparr>loading := True,
                       updatingLabel :=
                         (if showLabel
                          then ''Analyzing between '' @ start_date @ '' and '' @ end_date @ ''...''
                          else updatingLabel st),
                       analytics := JNull\<rparr>,
                    [Alert fetch_failed])
               | Some data \<Rightarrow>
                   handle_reply h mounted showLabel (cache_key farm_id start_date end_date)
                     start_date end_date data
                     (st\<lparr>loading := True,
                         updatingLabel :=
                           (if showLabel
                            then ''Analyzing between '' @ start_date @ '' and '' @ end_date @ ''...''
                            else updatingLabel st),
                         analytics := JNull\<rparr>))
         of (st', effects) \<Rightarrow>
           (if mounted then st'\<lparr>loading := False\<rparr> else st',
            Fetch (request_body cleanCoords start_date end_date farm_id forceRefresh) # effects)))"

text \<open>
  \<^verbatim>\<open>fetchAnalytics\<close> (lines 516-579). \<^verbatim>\<open>parseCoords\<close> runs first and outside the
  \<^verbatim>\<open>try\<close>: its exception rejects the call (\<open>Inl\<close>) before the cache is looked at.
\<close>

definition fetchAnalytics ::
  "host \<Rightarrow> string \<Rightarrow> jsval option \<Rightarrow> bool \<Rightarrow> jsval \<Rightarrow> string \<Rightarrow> string \<Rightarrow> bool \<Rightarrow> bool
     \<Rightarrow> dashboard \<Rightarrow> (exn + dashboard \<times> effect list) option" where
  "fetchAnalytics h farm_id reply mounted coords start_date end_date showLabel forceRefresh st =
     Option.bind (parseCoords h coords) (\<lambda>r. case r of
        Inl e \<Rightarrow> Some (Inl e)
      | Inr cleanCoords \<Rightarrow>
          Some (Inr (fetch_resolved h farm_id reply mounted cleanCoords start_date end_date
                       showLabel forceRefresh st)))"

text \<open>
  The effect of lines 445-455: whenever \<^verbatim>\<open>analytics\<close> changes the whole in-memory cache
  object is stored under \<^verbatim>\<open>analyticsCache\<close>.
\<close>

definition saveCache :: "dashboard \<Rightarrow> jsval" where
  "saveCache st = JObj (cache st)"

section \<open>The insights view (FarmInsights.js)\<close>

subsection \<open>Its own, smaller \<^verbatim>\<open>normalizeAnalytics\<close> (lines 75-120)\<close>

text \<open>\<^verbatim>\<open>if (!Array.isArray(out.k)) out.k = out.k || [];\<close>\<close>

definition keep_or_empty :: "(string \<times> jsval) list \<Rightarrow> string \<Rightarrow> (string \<times> jsval) list" where
  "keep_or_empty out k =
     (if is_array (lookup out k) then out
      else set_prop out k (if truthy (lookup out k) then lookup out k else JArr []))"

text \<open>\<^verbatim>\<open>v?.k\<close>\<close>

definition optional_prop :: "jsval \<Rightarrow> string \<Rightarrow> jsval" where
  "optional_prop v k = (if v = JUndef \<or> v = JNull then JUndef else read_prop v k)"

text \<open>
  \<^verbatim>\<open>if (!out.soil_profile) out.soil_profile = out.soil_profile || out.soil?.profile || {};\<close>
\<close>

definition profile_or_empty :: "(string \<times> jsval) list \<Rightarrow> (string \<times> jsval) list" where
  "profile_or_empty out =
     (if truthy (lookup out ''soil_profile'') then out
      else set_prop out ''soil_profile''
             (if truthy (optional_prop (lookup out ''soil'') ''profile'')
              then optional_prop (lookup out ''soil'') ''profile'' else JObj []))"

text \<open>\<^verbatim>\<open>vals.reduce((a, b) => a + b, 0) / vals.length\<close>\<close>

definition mean :: "jsnum list \<Rightarrow> jsnum" where
  "mean vals = num_div_len (foldl num_add (Fin 0) vals) (length vals)"

text \<open>
  The local \<^verbatim>\<open>safeAvg(arr, key)\<close> (lines 90-107), always called with a key: the mean of
  \<^verbatim>\<open>Number(d[key])\<close> over the samples that are not \<^verbatim>\<open>null\<close>, \<^verbatim>\<open>NaN\<close> left out.
\<close>

definition safeAvg :: "host \<Rightarrow> jsval \<Rightarrow> string \<Rightarrow> exn + jsval" where
  "safeAvg h arr key =
     (case arr of
        JArr xs \<Rightarrow>
          if xs = [] then Inr JNull
          else ebind (emap (\<lambda>d. if d = JUndef \<or> d = JNull then Inr None
                                else ebind (to_number h (read_prop d key)) (\<lambda>n. Inr (Some n))) xs)
                 (\<lambda>vs. case filter (\<lambda>v. \<not> isNaN v) (List.map_filter id vs) of
                         [] \<Rightarrow> Inr JNull
                       | v # vals \<Rightarrow> Inr (JNum (mean (v # vals))))
      | _ \<Rightarrow> Inr JNull)"

text \<open>
  \<^verbatim>\<open>out.rainfall.reduce((s, d) => s + Number(d?.rain_mm || d?.rain || 0), 0)\<close>
\<close>

fun total_rain :: "host \<Rightarrow> jsnum \<Rightarrow> jsval list \<Rightarrow> exn + jsnum" where
  "total_rain h s [] = Inr s"
| "total_rain h s (d # ds) =
     ebind (to_number h
              (if truthy (optional_prop d ''rain_mm'') then optional_prop d ''rain_mm''
               else if truthy (optional_prop d ''rain'') then optional_prop d ''rain''
               else JNum (Fin 0)))
       (\<lambda>n. total_rain h (num_add s n) ds)"

text \<open>
  The \<^verbatim>\<open>try\<close> block of lines 109-117: five assignments; an exception ends the block and
  keeps the assignments made so far.
\<close>

definition aggregates :: "host \<Rightarrow> (string \<times> jsval) list \<Rightarrow> (string \<times> jsval) list" where
  "aggregates h out =
     (case safeAvg h (lookup out ''ndvi_timeseries'') ''ndvi'' of
        Inl e \<Rightarrow> out
      | Inr a1 \<Rightarrow>
     (case safeAvg h (lookup out ''soil_moisture'') ''moisture'' of
        Inl e \<Rightarrow> set_prop out ''avg_ndvi'' a1
      | Inr a2 \<Rightarrow>
     (case (case lookup out ''rainfall'' of
              JArr ds \<Rightarrow> ebind (total_rain h (Fin 0) ds) (\<lambda>s. Inr (JNum s))
            | _ \<Rightarrow> Inr JNull) of
        Inl e \<Rightarrow> set_prop (set_prop out ''avg_ndvi'' a1) ''avg_soil_moisture'' a2
      | Inr a3 \<Rightarrow>
     (case safeAvg h (lookup out ''canopy_temperature'') ''canopy_temp'' of
        Inl e \<Rightarrow>
          set_prop (set_prop (set_prop out ''avg_ndvi'' a1) ''avg_soil_moisture'' a2)
            ''total_rain_mm'' a3
      | Inr a4 \<Rightarrow>
     (case safeAvg h (lookup out ''lai_timeseries'') ''lai'' of
        Inl e \<Rightarrow>
          set_prop (set_prop (set_prop (set_prop out ''avg_ndvi'' a1) ''avg_soil_moisture'' a2)
            ''total_rain_mm'' a3) ''avg_canopy_temp'' a4
      | Inr a5 \<Rightarrow>
          set_prop (set_prop (set_prop (set_prop (set_prop out ''avg_ndvi'' a1)
            ''avg_soil_moisture'' a2) ''total_rain_mm'' a3) ''avg_canopy_temp'' a4)
            ''avg_lai'' a5)))))"

definition insights_normalize :: "host \<Rightarrow> jsval \<Rightarrow> jsval" where
  "insights_normalize h raw =
     (if \<not> truthy raw \<or> \<not> typeof_object raw then JNull
      else JObj (aggregates h (profile_or_empty
             (foldl keep_or_empty (spread raw)
                [''soil_moisture'', ''ndvi_timeseries'', ''rainfall'', ''temperature'',
                 ''lai_timeseries'', ''canopy_temperature'', ''soil_temperature'']))))"

subsection \<open>Choosing a cached entry (\<^verbatim>\<open>loadForFarm\<close>, lines 179-204)\<close>

text \<open>\<^verbatim>\<open>k.startsWith(p)\<close>\<close>

definition starts_with :: "string \<Rightarrow> string \<Rightarrow> bool" where
  "starts_with p k = (take (length p) k = p)"

text \<open>
  \<^verbatim>\<open>Object.keys(savedCache).filter(k => k.startsWith(`${id}_`))\<close>, each key with the
  value \<^verbatim>\<open>savedCache[k]\<close> the loop reads.
\<close>

definition candidates :: "string \<Rightarrow> (string \<times> jsval) list \<Rightarrow> (string \<times> jsval) list" where
  "candidates farm_id savedCache = filter (\<lambda>kv. starts_with (farm_id @ ''_'') (fst kv)) savedCache"

text \<open>
  Lines 190-191, for a truthy entry: \<^verbatim>\<open>Date.parse(val.response.timestamp)\<close> when that
  is truthy, else \<^verbatim>\<open>Number(val._cached_at_ts) * 1000\<close> when that is truthy, else
  \<^verbatim>\<open>-Infinity\<close>.
\<close>

definition entry_stamp :: "host \<Rightarrow> jsval \<Rightarrow> exn + jsnum" where
  "entry_stamp h val =
     (if truthy (read_prop val ''response'')
         \<and> truthy (read_prop (read_prop val ''response'') ''timestamp'')
      then ebind (to_string h (read_prop (read_prop val ''response'') ''timestamp''))
             (\<lambda>s. Inr (date_parse h s))
      else if truthy (read_prop val ''_cached_at_ts'')
      then ebind (to_number h (read_prop val ''_cached_at_ts''))
             (\<lambda>n. Inr (num_mul n (Fin 1000)))
      else Inr NInf)"

text \<open>
  The \<^verbatim>\<open>forEach\<close> of lines 187-196 with its two variables \<^verbatim>\<open>bestKey\<close> and \<^verbatim>\<open>bestStamp\<close>.
\<close>

fun pick_best ::
  "host \<Rightarrow> (string \<times> jsval) list \<Rightarrow> string \<Rightarrow> jsnum \<Rightarrow> exn + string \<times> jsnum" where
  "pick_best h [] bestKey bestStamp = Inr (bestKey, bestStamp)"
| "pick_best h ((k, val) # rest) bestKey bestStamp =
     (if \<not> truthy val then pick_best h rest bestKey bestStamp
      else ebind (entry_stamp h val) (\<lambda>stamp.
             if truthy (JNum stamp) \<and> num_lt bestStamp stamp
             then pick_best h rest k stamp
             else pick_best h rest bestKey bestStamp))"

text \<open>
  Lines 185-197: the key whose entry is read. \<open>None\<close> when no key belongs to the farm.
\<close>

definition best_key :: "host \<Rightarrow> string \<Rightarrow> (string \<times> jsval) list \<Rightarrow> exn + string option" where
  "best_key h farm_id savedCache =
     (case candidates farm_id savedCache of
        [] \<Rightarrow> Inr None
      | (k0, v0) # rest \<Rightarrow>
          ebind (pick_best h ((k0, v0) # rest) k0 NInf) (\<lambda>r. Inr (Some (fst r))))"

subsection \<open>Timestamps of the candidates (claim C10)\<close>

text \<open>
  The timestamps the loop computes, in key order, for the candidates whose entry is truthy
  (\<^verbatim>\<open>if (!val) return;\<close>).
\<close>

fun stamps :: "host \<Rightarrow> (string \<times> jsval) list \<Rightarrow> exn + (string \<times> jsnum) list" where
  "stamps h [] = Inr []"
| "stamps h ((k, val) # rest) =
     (if \<not> truthy val then stamps h rest
      else ebind (entry_stamp h val) (\<lambda>s. ebind (stamps h rest) (\<lambda>ss. Inr ((k, s) # ss))))"

text \<open>
  A timestamp that can win: \<^verbatim>\<open>stamp && stamp > -Infinity\<close>, that is, a number other than
  \<^verbatim>\<open>NaN\<close>, \<^verbatim>\<open>0\<close> and \<^verbatim>\<open>-Infinity\<close>.
\<close>

definition usable :: "string \<times> jsnum \<Rightarrow> bool" where
  "usable ks = (truthy (JNum (snd ks)) \<and> num_lt NInf (snd ks))"

subsection \<open>\<^verbatim>\<open>loadForFarm\<close> (lines 175-264)\<close>

text \<open>
  What \<^verbatim>\<open>await get("analyticsCache")\<close> delivers: a rejection, \<^verbatim>\<open>undefined\<close> when nothing
  is stored, or the stored object. Both views store an object there.
\<close>

datatype idb_read = ReadFails | NoBlob | Blob "(string \<times> jsval) list"

record insights =
  shown :: jsval
  busy :: bool
  message :: string

text \<open>
  Lines 179-204 up to \<^verbatim>\<open>if (cachedEntry)\<close>: the entry to show, or \<open>None\<close> when the view
  goes on to the provider.
\<close>

definition cached_entry :: "host \<Rightarrow> string \<Rightarrow> idb_read \<Rightarrow> exn + jsval option" where
  "cached_entry h farm_id saved =
     (case saved of
        ReadFails \<Rightarrow> Inl StoreError
      | NoBlob \<Rightarrow> Inr None
      | Blob savedCache \<Rightarrow>
          ebind (best_key h farm_id savedCache) (\<lambda>bk. case bk of
             None \<Rightarrow> Inr None
           | Some bestKey \<Rightarrow>
               if truthy (lookup savedCache bestKey)
               then Inr (Some (lookup savedCache bestKey)) else Inr None))"

text \<open>\<^verbatim>\<open>cachedEntry.response || cachedEntry\<close>\<close>

definition entry_payload :: "jsval \<Rightarrow> jsval" where
  "entry_payload cachedEntry =
     (if truthy (read_prop cachedEntry ''response'')
      then read_prop cachedEntry ''response'' else cachedEntry)"

text \<open>The body of the POST (lines 216-222): the farm's coordinates as stored, no dates.\<close>

definition insights_request :: "jsval \<Rightarrow> string \<Rightarrow> jsval" where
  "insights_request coordinates farm_id =
     JObj [(''coordinates'', coordinates), (''start_date'', JUndef), (''end_date'', JUndef),
           (''farm_id'', JStr farm_id), (''force_refresh'', JBool False)]"

text \<open>\<^verbatim>\<open>`${v || "auto"}`\<close> for \<^verbatim>\<open>v = data.start_date || ""\<close>\<close>

definition date_or_auto :: "host \<Rightarrow> jsval \<Rightarrow> exn + string" where
  "date_or_auto h v = (if truthy v then to_string h v else Inr ''auto'')"

text \<open>
  Lines 238-249, the inner \<^verbatim>\<open>try\<close>: the object handed to \<^verbatim>\<open>idbSet\<close>, or \<open>None\<close> when the
  block ends in its \<^verbatim>\<open>catch\<close> first. \<open>stored\<close> is the second read of the store, \<open>now\<close> is
  \<^verbatim>\<open>Date.now()\<close> in milliseconds.
\<close>

definition write_back :: "host \<Rightarrow> string \<Rightarrow> jsval \<Rightarrow> idb_read \<Rightarrow> int \<Rightarrow> jsval option" where
  "write_back h farm_id data stored now =
     (case (case stored of ReadFails \<Rightarrow> None | NoBlob \<Rightarrow> Some [] | Blob g \<Rightarrow> Some g) of
        None \<Rightarrow> None
      | Some globalCache \<Rightarrow>
          (case date_or_auto h (read_prop data ''start_date'') of
             Inl e \<Rightarrow> None
           | Inr start \<Rightarrow>
               (case date_or_auto h (read_prop data ''end_date'') of
                  Inl e \<Rightarrow> None
                | Inr end_date \<Rightarrow>
                    Some (JObj (set_prop globalCache (farm_id @ ''_'' @ start @ ''_'' @ end_date)
                            (JObj [(''_cached_at_ts'', JNum (Fin (of_int (now div 1000)))),
                                   (''response'', data)]))))))"

definition fetch_failed_insights :: "bool \<Rightarrow> insights \<Rightarrow> insights" where
  "fetch_failed_insights cancelled st =
     (if cancelled then st else st\<lparr>message := ''Failed to fetch analytics (check console).''\<rparr>)"

text \<open>\<^verbatim>\<open>finally { if (!cancelled) setLoading(false); }\<close>\<close>

definition finally_idle :: "bool \<Rightarrow> insights \<Rightarrow> insights" where
  "finally_idle cancelled st = (if cancelled then st else st\<lparr>busy := False\<rparr>)"

text \<open>
  Lines 228-263, from the reply on: the new state, whether the normalizer ran, and what
  was handed to \<^verbatim>\<open>idbSet\<close>. \<open>cancelled\<close> is the flag when the reply arrives; after a
  write-back, which awaits the store twice, \<^verbatim>\<open>finally\<close> reads it again (\<open>cancelled_late\<close>).
\<close>

definition insights_reply ::
  "host \<Rightarrow> string \<Rightarrow> bool \<Rightarrow> bool \<Rightarrow> jsval option \<Rightarrow> idb_read \<Rightarrow> int \<Rightarrow> insights
     \<Rightarrow> insights \<times> effect list \<times> jsval option" where
  "insights_reply h farm_id cancelled cancelled_late reply stored now st =
     (case reply of
        None \<Rightarrow> (finally_idle cancelled (fetch_failed_insights cancelled st), [], None)
      | Some data \<Rightarrow>
          (case get_prop data ''error'' of
             Inl e \<Rightarrow> (finally_idle cancelled (fetch_failed_insights cancelled st), [], None)
           | Inr err \<Rightarrow>
               if truthy err then
                 (if cancelled then (st, [], None)
                  else (case to_string h err of
                          Inl e \<Rightarrow>
                            (finally_idle cancelled (fetch_failed_insights cancelled st), [], None)
                        | Inr msg \<Rightarrow>
                            (finally_idle cancelled
                               (st\<lparr>message := ''Failed to fetch analytics: '' @ msg\<rparr>),
                             [], None)))
               else
                 (finally_idle cancelled_late
                    (if cancelled then st else st\<lparr>shown := insights_normalize h data\<rparr>),
                  [Normalize data],
                  write_back h farm_id data stored now)))"

text \<open>
  \<^verbatim>\<open>loadForFarm\<close>. \<open>saved\<close> and \<open>stored\<close> are the two reads of the store, \<open>reply\<close> is the
  provider's parsed answer (\<open>None\<close> when the request or its JSON fails), \<open>cancelled\<close> is the
  flag when the first answer is handled and \<open>cancelled_late\<close> the flag in \<^verbatim>\<open>finally\<close>
  after a write-back; the run starts with \<^verbatim>\<open>setLoading(true)\<close>. The result is the state, the effects and the object written to the
  store, if one was.
\<close>

definition loadForFarm ::
  "host \<Rightarrow> string \<Rightarrow> jsval \<Rightarrow> idb_read \<Rightarrow> jsval option \<Rightarrow> idb_read \<Rightarrow> int \<Rightarrow> bool \<Rightarrow> bool
     \<Rightarrow> insights \<Rightarrow> insights \<times> effect list \<times> jsval option" where
  "loadForFarm h farm_id coordinates saved reply stored now cancelled cancelled_late st =
     (case cached_entry h farm_id saved of
        Inl e \<Rightarrow>
          (finally_idle cancelled
             (if cancelled then st\<lparr>busy := True\<rparr>
              else st\<lparr>busy := True, message := ''Failed to load analytics.''\<rparr>),
           [], None)
      | Inr (Some cachedEntry) \<Rightarrow>
          ((if cancelled then st else st\<lparr>shown := insights_normalize h (entry_payload cachedEntry)\<rparr>)
             \<lparr>busy := False\<rparr>,
           [Normalize (entry_payload cachedEntry)], None)
      | Inr None \<Rightarrow>
          if truthy coordinates \<and> truthy (read_prop coordinates ''length'') then
            (case insights_reply h farm_id cancelled cancelled_late reply stored now
                    (st\<lparr>busy := True\<rparr>) of
               (st', effects, put) \<Rightarrow>
                 (st', Fetch (insights_request coordinates farm_id) # effects, put))
          else (finally_idle cancelled (st\<lparr>busy := True\<rparr>), [], None))"

subsection \<open>Visualization points: \<^verbatim>\<open>soilPoints\<close> (lines 18-51 and 271-319)\<close>

definition nullish :: "jsval \<Rightarrow> bool" where
  "nullish v = (v = JUndef \<or> v = JNull)"

text \<open>\<^verbatim>\<open>a ?? b ?? c\<close>: the first operand that is neither \<^verbatim>\<open>null\<close> nor \<^verbatim>\<open>undefined\<close>, else the last.\<close>

fun coalesce :: "jsval list \<Rightarrow> jsval" where
  "coalesce [] = JUndef"
| "coalesce [x] = x"
| "coalesce (x # xs) = (if nullish x then coalesce xs else x)"

text \<open>\<^verbatim>\<open>v[i]\<close> on a value that is neither \<^verbatim>\<open>null\<close> nor \<^verbatim>\<open>undefined\<close>.\<close>

definition read_index :: "jsval \<Rightarrow> nat \<Rightarrow> jsval" where
  "read_index v i = (case get_index v i of Inl e \<Rightarrow> JUndef | Inr x \<Rightarrow> x)"

text \<open>\<^verbatim>\<open>Math.abs\<close>\<close>

fun num_abs :: "jsnum \<Rightarrow> jsnum" where
  "num_abs NaN = NaN"
| "num_abs (Fin a) = Fin \<bar>a\<bar>"
| "num_abs _ = PInf"

text \<open>\<^verbatim>\<open>[Number(p[i]), Number(p[j])]\<close>\<close>

definition index_pair :: "host \<Rightarrow> nat \<Rightarrow> nat \<Rightarrow> jsval \<Rightarrow> exn + jsnum \<times> jsnum" where
  "index_pair h i j p =
     ebind (get_index p i) (\<lambda>a. ebind (to_number h a) (\<lambda>x.
     ebind (get_index p j) (\<lambda>b. ebind (to_number h b) (\<lambda>y. Inr (x, y)))))"

text \<open>Lines 22-26, one vertex given as an object.\<close>

definition object_vertex :: "host \<Rightarrow> jsval \<Rightarrow> exn + jsnum \<times> jsnum" where
  "object_vertex h pt =
     (if nullish pt then Inl TypeError
      else ebind (to_number h (coalesce [read_prop pt ''lat'', read_prop pt ''latitude'', JNull]))
             (\<lambda>lat.
           ebind (to_number h (coalesce [read_prop pt ''lng'', read_prop pt ''longitude'', JNull]))
             (\<lambda>lng. Inr (lat, lng))))"

text \<open>\<^verbatim>\<open>xs[i]\<close> of the array \<^verbatim>\<open>coords[0].map(Number)\<close>, under \<^verbatim>\<open>Math.abs\<close>.\<close>

definition abs_at :: "jsnum list \<Rightarrow> nat \<Rightarrow> jsnum" where
  "abs_at xs i = (if i < length xs then num_abs (xs ! i) else NaN)"

text \<open>\<^verbatim>\<open>normalizeToLatLngArray\<close> (lines 18-44): the polygon as \<open>(lat, lng)\<close> pairs.\<close>

definition normalizeToLatLngArray :: "host \<Rightarrow> jsval \<Rightarrow> exn + (jsnum \<times> jsnum) list" where
  "normalizeToLatLngArray h coords =
     (if \<not> truthy coords then Inr []
      else (case coords of
              JArr (first # rest) \<Rightarrow>
                ebind (if typeof_object first
                       then ebind (has_prop ''lat'' first)
                              (\<lambda>a. if a then Inr True else has_prop ''latitude'' first)
                       else Inr False) (\<lambda>objects.
                  if objects then
                    ebind (emap (object_vertex h) (first # rest)) (\<lambda>ps.
                      Inr (filter (\<lambda>p. \<not> isNaN (fst p) \<and> \<not> isNaN (snd p)) ps))
                  else (case first of
                          JArr fs \<Rightarrow>
                            ebind (emap (to_number h) fs) (\<lambda>ns.
                              if num_le (abs_at ns 0) (Fin 90) \<and> num_le (abs_at ns 1) (Fin 180)
                              then emap (index_pair h 0 1) (first # rest)
                              else emap (index_pair h 1 0) (first # rest))
                        | _ \<Rightarrow> Inr []))
            | JObj kvs \<Rightarrow>
                if ''latitude'' \<in> set (map fst kvs) \<and> ''longitude'' \<in> set (map fst kvs)
                then ebind (to_number h (lookup kvs ''latitude'')) (\<lambda>lat.
                     ebind (to_number h (lookup kvs ''longitude'')) (\<lambda>lng. Inr [(lat, lng)]))
                else Inr []
            | _ \<Rightarrow> Inr []))"

text \<open>\<^verbatim>\<open>centroidOfLatLngs\<close> (lines 46-51): the mean of the vertices, \<open>None\<close> for \<^verbatim>\<open>null\<close>.\<close>

definition centroidOfLatLngs :: "(jsnum \<times> jsnum) list \<Rightarrow> (jsnum \<times> jsnum) option" where
  "centroidOfLatLngs latlngs =
     (if latlngs = [] then None
      else Some (num_div_len (foldl num_add (Fin 0) (map fst latlngs)) (length latlngs),
                 num_div_len (foldl num_add (Fin 0) (map snd latlngs)) (length latlngs)))"

text \<open>
  A point handed to the map. \<open>p_moisture\<close> is a number or \<^verbatim>\<open>null\<close> (\<open>None\<close>).
\<close>

record vis_point =
  p_lat :: jsnum
  p_lng :: jsnum
  p_moisture :: "jsnum option"
  p_date :: jsval

text \<open>Lines 278-282, one element of \<^verbatim>\<open>analytics.soil_moisture_points\<close>.\<close>

definition moisture_point :: "host \<Rightarrow> jsval \<Rightarrow> exn + vis_point" where
  "moisture_point h p =
     (if nullish p then Inl TypeError
      else ebind (to_number h
                    (coalesce [read_prop p ''lat'', read_prop p ''latitude'', read_index p 1]))
             (\<lambda>lat.
           ebind (to_number h
                    (coalesce [read_prop p ''lng'', read_prop p ''longitude'', read_index p 0]))
             (\<lambda>lng.
           ebind (to_number h
                    (coalesce [read_prop p ''moisture'', read_prop p ''value'', read_prop p ''m'',
                               JNull]))
             (\<lambda>m. Inr \<lparr>p_lat = lat, p_lng = lng, p_moisture = Some m,
                        p_date = coalesce [read_prop p ''date'', read_prop p ''timestamp'',
                                           JNull]\<rparr>))))"

text \<open>Lines 289-293, one element of \<^verbatim>\<open>analytics.soil_samples\<close>.\<close>

definition sample_point :: "host \<Rightarrow> jsval \<Rightarrow> exn + vis_point" where
  "sample_point h s =
     (if nullish s then Inl TypeError
      else ebind (to_number h
                    (coalesce [read_prop s ''lat'', read_prop s ''latitude'',
                               optional_prop (read_prop s ''location'') ''lat'', JNull]))
             (\<lambda>lat.
           ebind (to_number h
                    (coalesce [read_prop s ''lng'', read_prop s ''longitude'',
                               optional_prop (read_prop s ''location'') ''lng'', JNull]))
             (\<lambda>lng.
           ebind (to_number h
                    (coalesce [read_prop s ''moisture'', read_prop s ''value'',
                               read_prop s ''moisture_value'', JNull]))
             (\<lambda>m. Inr \<lparr>p_lat = lat, p_lng = lng, p_moisture = Some m,
                        p_date = coalesce [read_prop s ''date'', read_prop s ''sample_date'',
                                           JNull]\<rparr>))))"

text \<open>\<^verbatim>\<open>.filter(pt => !isNaN(pt.lat) && !isNaN(pt.lng))\<close>\<close>

definition located :: "vis_point list \<Rightarrow> vis_point list" where
  "located pts = filter (\<lambda>pt. \<not> isNaN (p_lat pt) \<and> \<not> isNaN (p_lng pt)) pts"

text \<open>Lines 303-313, the moisture of one element of the series; \<open>None\<close> is \<^verbatim>\<open>null\<close>.\<close>

definition series_moisture :: "host \<Rightarrow> jsval \<Rightarrow> exn + jsnum option" where
  "series_moisture h d =
     (case d of
        JNum n \<Rightarrow> Inr (Some n)
      | _ \<Rightarrow>
          if nullish d then Inr None
          else ebind (has_prop ''moisture'' d) (\<lambda>m.
                 if m then ebind (to_number h (read_prop d ''moisture'')) (\<lambda>n. Inr (Some n))
                 else named_or_first h ''value'' d))"

text \<open>Lines 300-317, the moisture of the centroid point.\<close>

definition centroid_moisture :: "host \<Rightarrow> jsval \<Rightarrow> exn + jsnum option" where
  "centroid_moisture h shown_analytics =
     ebind (case coalesce [optional_prop shown_analytics ''soil_moisture'',
                           optional_prop shown_analytics ''soil_moisture_timeseries'', JArr []] of
              JArr (d # ds) \<Rightarrow>
                ebind (emap (series_moisture h) (d # ds)) (\<lambda>vs.
                  case filter (\<lambda>v. \<not> isNaN v) (List.map_filter id vs) of
                    [] \<Rightarrow> Inr None
                  | v # vals \<Rightarrow> Inr (Some (mean (v # vals))))
            | _ \<Rightarrow> Inr None) (\<lambda>avg.
       case avg of
         Some a \<Rightarrow> Inr (Some a)
       | None \<Rightarrow> (case optional_prop shown_analytics ''soil_moisture'' of
                    JNum n \<Rightarrow> Inr (Some n)
                  | _ \<Rightarrow> Inr None))"

text \<open>
  \<^verbatim>\<open>soilPoints\<close> (lines 272-319), after \<^verbatim>\<open>polygonPositions\<close> (line 271) on which it
  depends.
\<close>

definition soilPoints :: "host \<Rightarrow> jsval \<Rightarrow> jsval \<Rightarrow> exn + vis_point list" where
  "soilPoints h shown_analytics farm =
     ebind (normalizeToLatLngArray h (optional_prop farm ''coordinates'')) (\<lambda>polygonPositions.
       if \<not> truthy shown_analytics \<and> \<not> truthy farm then Inr []
       else if truthy (optional_prop shown_analytics ''soil_moisture_points'')
               \<and> is_array (optional_prop shown_analytics ''soil_moisture_points'')
       then (case optional_prop shown_analytics ''soil_moisture_points'' of
               JArr ps \<Rightarrow> ebind (emap (moisture_point h) ps) (\<lambda>pts. Inr (located pts))
             | _ \<Rightarrow> Inr [])
       else if truthy (optional_prop shown_analytics ''soil_samples'')
               \<and> is_array (optional_prop shown_analytics ''soil_samples'')
       then (case optional_prop shown_analytics ''soil_samples'' of
               JArr ss \<Rightarrow> ebind (emap (sample_point h) ss) (\<lambda>pts. Inr (located pts))
             | _ \<Rightarrow> Inr [])
       else (case centroidOfLatLngs polygonPositions of
               None \<Rightarrow> Inr []
             | Some c \<Rightarrow>
                 ebind (centroid_moisture h shown_analytics) (\<lambda>avg.
                   Inr [\<lparr>p_lat = fst c, p_lng = snd c, p_moisture = avg, p_date = JNull\<rparr>])))"

text \<open>
  \<^verbatim>\<open>moistureToColor\<close> (lines 54-61): grey for an unknown moisture, red below 0.12.
\<close>

definition moistureToColor :: "jsnum option \<Rightarrow> string" where
  "moistureToColor m =
     (case m of
        None \<Rightarrow> ''#888''
      | Some v \<Rightarrow>
          if isNaN v then ''#888''
          else if num_lt v (Fin 0.12) then ''#e11d48''
          else if num_lt v (Fin 0.20) then ''#f97316''
          else if num_lt v (Fin 0.35) then ''#f59e0b''
          else if num_lt v (Fin 0.6) then ''#10b981''
          else ''#06b6d4'')"

section \<open>Closed examples\<close>

text \<open>What the dashboard's normalizer makes of the empty reply \<^verbatim>\<open>{}\<close>.\<close>

definition defaults_only :: "(string \<times> jsval) list" where
  "defaults_only =
     [(''temperature'', JArr []), (''soil_temperature'', JArr []),
      (''canopy_temperature'', JArr []), (''rainfall'', JArr []),
      (''ndvi_timeseries'', JArr []), (''evi_timeseries'', JArr []),
      (''gndvi_timeseries'', JArr []), (''savi_timeseries'', JArr []),
      (''ndwi_timeseries'', JArr []), (''msavi_timeseries'', JArr []),
      (''arvi_timeseries'', JArr []), (''lai_timeseries'', JArr []),
      (''chlorophyll_index'', JArr []), (''water_stress_index'', JArr []),
      (''biomass_proxy'', JArr []), (''canopy_fraction'', JArr []),
      (''soil_moisture'', JArr []), (''soil_profile'', JObj []),
      (''alerts'', JObj [(''frost'', JArr []), (''heat'', JArr [])])]"

text \<open>A dashboard that holds one stale entry for farm \<^verbatim>\<open>f1\<close> and the first quarter of 2025.\<close>

definition stale_dashboard :: dashboard where
  "stale_dashboard =
     \<lparr>cache = [(''f1_2025-01-01_2025-03-31'', JObj [(''growth_stage'', JStr ''tillering'')])],
      analytics = JNull, loading = False, updatingLabel = []\<rparr>"

text \<open>An insights view that has shown nothing yet.\<close>

definition fresh_insights :: insights where
  "fresh_insights = \<lparr>shown = JNull, busy = False, message = []\<rparr>"

text \<open>A reply that reports an error, and a polygon of one vertex.\<close>

definition quota_reply :: jsval where
  "quota_reply = JObj [(''error'', JStr ''quota exceeded'')]"

definition one_vertex :: jsval where
  "one_vertex = JArr [JArr [JNum (Fin 72.5), JNum (Fin 23)]]"

text \<open>A reply in Kelvin, as the provider sends it.\<close>

definition kelvin_reply :: jsval where
  "kelvin_reply =
     JObj [(''temperature'',
              JArr [JObj [(''temp'', JNum (Fin 305)), (''date'', JStr ''2025-01-01'')]])]"

text \<open>
  A store with two entries of farm \<^verbatim>\<open>f1\<close>, written by the insights view one after the
  other, and one entry of farm \<^verbatim>\<open>f2\<close>.
\<close>

definition shared_store :: "(string \<times> jsval) list" where
  "shared_store =
     [(''f1_2025-01-01_2025-03-31'',
         JObj [(''_cached_at_ts'', JNum (Fin 1700000000)), (''response'', JObj [])]),
      (''f2_auto_auto'',
         JObj [(''_cached_at_ts'', JNum (Fin 1800000000)), (''response'', JObj [])]),
      (''f1_auto_auto'',
         JObj [(''_cached_at_ts'', JNum (Fin 1750000000)), (''response'', JObj [])])]"

text \<open>Two entries whose clocks read the epoch and five seconds before it.\<close>

definition epoch_store :: "(string \<times> jsval) list" where
  "epoch_store =
     [(''f1_a'', JObj [(''_cached_at_ts'', JNum (Fin 0))]),
      (''f1_b'', JObj [(''_cached_at_ts'', JNum (Fin (- 5)))])]"

text \<open>A farm with a triangle as its polygon, vertices as \<^verbatim>\<open>{lat, lng}\<close> objects.\<close>

definition triangle_farm :: jsval where
  "triangle_farm =
     JObj [(''coordinates'',
            JArr [JObj [(''lat'', JNum (Fin 23)), (''lng'', JNum (Fin 72))],
                  JObj [(''lat'', JNum (Fin 24)), (''lng'', JNum (Fin 72))],
                  JObj [(''lat'', JNum (Fin 25)), (''lng'', JNum (Fin 75))]])]"

text \<open>A store as the dashboard alone leaves it: two entries of farm \<^verbatim>\<open>f1\<close>, no timestamps.\<close>

definition dashboard_store :: "(string \<times> jsval) list" where
  "dashboard_store =
     [(''f1_2025-01-01_2025-03-31'', JObj defaults_only),
      (''f1_2024-10-01_2024-12-31'', JObj defaults_only)]"

section \<open>Exceptions: evaluation rules\<close>

lemma ebind_Inr [simp]: "ebind (Inr x) f = f x"
  by (simp add: ebind_def)

lemma ebind_Inl [simp]: "ebind (Inl e) f = Inl e"
  by (simp add: ebind_def)

text \<open>The continuation is simplified only once the first computation has a result.\<close>

lemma ebind_weak_cong [cong]: "m = m' \<Longrightarrow> ebind m f = ebind m' f"
  by simp

section \<open>Properties of the coordinate resolver\<close>

lemma numeric_pairE:
  assumes "numeric_pair p"
  obtains x y where "p = JArr [JNum x, JNum y]" "x \<noteq> NaN" "y \<noteq> NaN"
  using assms by (auto elim!: numeric_pair.elims)

lemma swap_pair_numeric:
  "numeric_pair p \<Longrightarrow> swap_pair h p = Inr (swap_axes p)"
  by (erule numeric_pairE) (simp add: swap_pair_def ebind_def)

lemma keep_pair_numeric:
  "numeric_pair p \<Longrightarrow> keep_pair h p = Inr p"
  by (erule numeric_pairE) (simp add: keep_pair_def ebind_def)

lemma emap_swap_pair:
  "list_all numeric_pair ps \<Longrightarrow> emap (swap_pair h) ps = Inr (map swap_axes ps)"
  by (induction ps) (simp_all add: swap_pair_numeric ebind_def)

lemma emap_keep_pair:
  "list_all numeric_pair ps \<Longrightarrow> emap (keep_pair h) ps = Inr ps"
  by (induction ps) (simp_all add: keep_pair_numeric ebind_def)

lemma nested_pairs_numeric:
  assumes "list_all numeric_pair (JArr [JNum a, JNum b] # ps)"
  shows "nested_pairs h (JArr [JNum a, JNum b] # ps) =
           Inr (Some (JArr (if lat_lng_range a b
                            then map swap_axes (JArr [JNum a, JNum b] # ps)
                            else JArr [JNum a, JNum b] # ps)))"
proof -
  have ab: "a \<noteq> NaN" "b \<noteq> NaN"
    using assms by simp_all
  have sw: "emap (swap_pair h) (JArr [JNum a, JNum b] # ps)
              = Inr (map swap_axes (JArr [JNum a, JNum b] # ps))"
    using assms by (rule emap_swap_pair)
  have kp: "emap (keep_pair h) (JArr [JNum a, JNum b] # ps) = Inr (JArr [JNum a, JNum b] # ps)"
    using assms by (rule emap_keep_pair)
  show ?thesis
    unfolding nested_pairs_def
    by (simp only: list.case is_array.simps if_True get_index.simps to_number.simps)
       (simp add: ebind_def isNaN_def ab sw kp del: emap.simps)
qed

text \<open>
  C1. On a non-empty array of 2-element numeric pairs the resolver looks at the first pair
  \<open>(a, b)\<close> only: when \<open>-90 \<le> a \<le> 90\<close> and \<open>-180 \<le> b \<le> 180\<close> every pair comes back
  swapped, otherwise every pair comes back as it is; an array that starts with
  \<open>(172, 40)\<close> comes back unchanged.
\<close>

theorem parseCoords_numeric_pairs:
  assumes "list_all numeric_pair (JArr [JNum a, JNum b] # ps)"
  shows "parseCoords h (JArr (JArr [JNum a, JNum b] # ps)) =
           Some (Inr (JArr (if lat_lng_range a b
                            then map swap_axes (JArr [JNum a, JNum b] # ps)
                            else JArr [JNum a, JNum b] # ps)))"
proof -
  have val: "parseCoords h (JArr (JArr [JNum a, JNum b] # ps)) =
               Some (parseCoords_value h (JArr (JArr [JNum a, JNum b] # ps)))"
    by (subst parseCoords.simps) simp
  have arr: "parseCoords_value h (JArr (JArr [JNum a, JNum b] # ps)) =
               parseCoords_array h (JArr [JNum a, JNum b] # ps)"
    by (simp add: parseCoords_value_def has_both_def ebind_def)
  have res: "parseCoords_array h (JArr [JNum a, JNum b] # ps) =
               Inr (JArr (if lat_lng_range a b
                          then map swap_axes (JArr [JNum a, JNum b] # ps)
                          else JArr [JNum a, JNum b] # ps))"
    unfolding parseCoords_array_def nested_pairs_numeric [OF assms]
    by (simp add: ebind_def)
  show ?thesis
    by (simp only: val arr res)
qed

theorem parseCoords_numeric_pairs_witness:
  "\<forall>h. list_all numeric_pair
          [JArr [JNum (Fin 23.01), JNum (Fin 72.50)],
           JArr [JNum (Fin 23.02), JNum (Fin 72.51)],
           JArr [JNum (Fin 23.03), JNum (Fin 72.50)]]
       \<and> parseCoords h
           (JArr [JArr [JNum (Fin 23.01), JNum (Fin 72.50)],
                  JArr [JNum (Fin 23.02), JNum (Fin 72.51)],
                  JArr [JNum (Fin 23.03), JNum (Fin 72.50)]])
         = Some (Inr (JArr [JArr [JNum (Fin 72.50), JNum (Fin 23.01)],
                            JArr [JNum (Fin 72.51), JNum (Fin 23.02)],
                            JArr [JNum (Fin 72.50), JNum (Fin 23.03)]]))
       \<and> list_all numeric_pair
          [JArr [JNum (Fin 172), JNum (Fin 40)], JArr [JNum (Fin 172.5), JNum (Fin 40.5)]]
       \<and> parseCoords h
           (JArr [JArr [JNum (Fin 172), JNum (Fin 40)], JArr [JNum (Fin 172.5), JNum (Fin 40.5)]])
         = Some (Inr (JArr [JArr [JNum (Fin 172), JNum (Fin 40)],
                            JArr [JNum (Fin 172.5), JNum (Fin 40.5)]]))"
proof
  fix h
  have np: "list_all numeric_pair
          (JArr [JNum (Fin 23.01), JNum (Fin 72.50)] #
           [JArr [JNum (Fin 23.02), JNum (Fin 72.51)],
            JArr [JNum (Fin 23.03), JNum (Fin 72.50)]])"
    by simp
  have rg: "lat_lng_range (Fin 23.01) (Fin 72.50)"
    by (simp add: lat_lng_range_def num_le_def)
  have np': "list_all numeric_pair
          (JArr [JNum (Fin 172), JNum (Fin 40)] # [JArr [JNum (Fin 172.5), JNum (Fin 40.5)]])"
    by simp
  have rg': "\<not> lat_lng_range (Fin 172) (Fin 40)"
    by (simp add: lat_lng_range_def num_le_def)
  show "list_all numeric_pair
          [JArr [JNum (Fin 23.01), JNum (Fin 72.50)],
           JArr [JNum (Fin 23.02), JNum (Fin 72.51)],
           JArr [JNum (Fin 23.03), JNum (Fin 72.50)]]
       \<and> parseCoords h
           (JArr [JArr [JNum (Fin 23.01), JNum (Fin 72.50)],
                  JArr [JNum (Fin 23.02), JNum (Fin 72.51)],
                  JArr [JNum (Fin 23.03), JNum (Fin 72.50)]])
         = Some (Inr (JArr [JArr [JNum (Fin 72.50), JNum (Fin 23.01)],
                            JArr [JNum (Fin 72.51), JNum (Fin 23.02)],
                            JArr [JNum (Fin 72.50), JNum (Fin 23.03)]]))
       \<and> list_all numeric_pair
          [JArr [JNum (Fin 172), JNum (Fin 40)], JArr [JNum (Fin 172.5), JNum (Fin 40.5)]]
       \<and> parseCoords h
           (JArr [JArr [JNum (Fin 172), JNum (Fin 40)], JArr [JNum (Fin 172.5), JNum (Fin 40.5)]])
         = Some (Inr (JArr [JArr [JNum (Fin 172), JNum (Fin 40)],
                            JArr [JNum (Fin 172.5), JNum (Fin 40.5)]]))"
    using parseCoords_numeric_pairs [OF np, of h] parseCoords_numeric_pairs [OF np', of h] rg rg'
    by simp
qed

subsection \<open>Returning without an exception\<close>

lemma parseCoords_nonstring:
  "str_of c = None \<Longrightarrow>
     parseCoords h c = Some (if \<not> truthy c then Inr (JArr []) else parseCoords_value h c)"
  by (subst parseCoords.simps) simp






lemma parseCoords_value_unknown_shape:
  "unknown_shape xs \<Longrightarrow> parseCoords_value h (JArr xs) = Inr (JArr xs)"
  by (cases xs)
     (simp_all add: unknown_shape_def parseCoords_value_def has_both_def parseCoords_array_def
        nested_pairs_def object_points_def)






section \<open>Properties of the normalizer\<close>

subsection \<open>Unit inference\<close>






text \<open>
  The first scenario of the specification: \<^verbatim>\<open>temp: 305\<close> becomes \<^verbatim>\<open>31.85\<close>, \<^verbatim>\<open>rain\<close> is
  renamed to \<^verbatim>\<open>rain_mm\<close>, every other series is the empty array.
\<close>

lemmas normalizer_defs =
  normalizeAnalytics_def promote_def nested_array_def lookup_def lacks_items_def map_series_def
  expectedArrays_def ensure_array_def ensure_soil_profile_def ensure_alerts_def

lemma normalizeAnalytics_scenario:
  "normalizeAnalytics h
     (JObj [(''temperature'',
               JArr [JObj [(''temp'', JNum (Fin 305)), (''date'', JStr ''2025-01-01'')]]),
            (''rainfall'',
               JArr [JObj [(''rain'', JNum (Fin 4.2)), (''date'', JStr ''2025-01-01'')]])])
   = Inr (JObj
       [(''temperature'',
           JArr [JObj [(''date'', JStr ''2025-01-01''), (''temp'', JNum (Fin 31.85))]]),
        (''rainfall'',
           JArr [JObj [(''date'', JStr ''2025-01-01''), (''rain_mm'', JNum (Fin 4.2))]]),
        (''soil_temperature'', JArr []), (''canopy_temperature'', JArr []),
        (''ndvi_timeseries'', JArr []), (''evi_timeseries'', JArr []),
        (''gndvi_timeseries'', JArr []), (''savi_timeseries'', JArr []),
        (''ndwi_timeseries'', JArr []), (''msavi_timeseries'', JArr []),
        (''arvi_timeseries'', JArr []), (''lai_timeseries'', JArr []),
        (''chlorophyll_index'', JArr []), (''water_stress_index'', JArr []),
        (''biomass_proxy'', JArr []), (''canopy_fraction'', JArr []),
        (''soil_moisture'', JArr []), (''soil_profile'', JObj []),
        (''alerts'', JObj [(''frost'', JArr []), (''heat'', JArr [])])])"
  by (simp add: normalizer_defs temperature_sample_def rainfall_sample_def temp_value_def
        isNaN_def num_sub_def)

subsection \<open>Defaults\<close>

lemma lookup_set_prop:
  "lookup (set_prop kvs k v) k' = (if k' = k then v else lookup kvs k')"
  by (induction kvs) (auto simp: lookup_def)

lemma lookup_absent:
  "k \<notin> set (map fst kvs) \<Longrightarrow> lookup kvs k = JUndef"
  by (simp add: lookup_def map_of_eq_None_iff [THEN iffD2])

lemma promote_none:
  "nested_array out g nk = None \<Longrightarrow> promote out k g nk = out"
  by (simp add: promote_def)

lemma map_series_absent:
  "lookup out k = JUndef \<Longrightarrow> map_series f k out = Inr (set_prop out k (JArr []))"
  by (simp add: map_series_def)

lemma lookup_ensure_array:
  "lookup (ensure_array out k) k' =
     (if k' = k \<and> \<not> is_array (lookup out k) then JArr [] else lookup out k')"
  by (simp add: ensure_array_def lookup_set_prop)

lemma lookup_foldl_ensure_array:
  "lookup (foldl ensure_array out ks) k =
     (if k \<in> set ks \<and> \<not> is_array (lookup out k) then JArr [] else lookup out k)"
proof (induction ks arbitrary: out)
  case Nil
  show ?case by simp
next
  case (Cons a ks)
  show ?case
    by (cases "lookup out k") (auto simp: Cons.IH lookup_ensure_array)
qed

lemma lookup_ensure_soil_profile:
  "k \<noteq> ''soil_profile'' \<Longrightarrow> lookup (ensure_soil_profile out) k = lookup out k"
  by (simp add: ensure_soil_profile_def lookup_set_prop)

lemma lookup_ensure_alerts:
  "k \<noteq> ''alerts'' \<Longrightarrow> lookup (ensure_alerts out) k = lookup out k"
  by (simp add: ensure_alerts_def lookup_set_prop)

lemma ensure_alerts_default:
  "lookup out ''alerts'' = JUndef \<Longrightarrow>
     lookup (ensure_alerts out) ''alerts'' = JObj [(''frost'', JArr []), (''heat'', JArr [])]"
  by (simp add: ensure_alerts_def lookup_set_prop)

lemma ensure_soil_profile_default:
  "lookup out ''soil_profile'' = JUndef \<Longrightarrow>
   \<not> (truthy (lookup out ''soil'') \<and> truthy (read_prop (lookup out ''soil'') ''profile'')) \<Longrightarrow>
     lookup (ensure_soil_profile out) ''soil_profile'' = JObj []"
  by (auto simp add: ensure_soil_profile_def lookup_set_prop)

lemma lookup_with_series:
  "lookup (with_series raw) k =
     (if k \<in> {''temperature'', ''soil_temperature'', ''canopy_temperature'', ''rainfall''}
      then JArr [] else lookup raw k)"
  by (simp add: with_series_def lookup_set_prop)

lemma normalize_without_series:
  assumes a: "lookup raw ''temperature'' = JUndef" "lookup raw ''soil_temperature'' = JUndef"
      "lookup raw ''canopy_temperature'' = JUndef" "lookup raw ''rainfall'' = JUndef"
    and nest: "no_nested_metrics raw"
  shows "normalizeAnalytics h (JObj raw) =
           Inr (JObj (ensure_alerts (ensure_soil_profile
                  (foldl ensure_array (with_series raw) expectedArrays))))"
proof -
  have p: "promote (promote (promote (promote raw ''temperature'' ''weather'' ''temperature'')
                       ''rainfall'' ''weather'' ''rainfall'')
                     ''soil_moisture'' ''soil'' ''moisture'')
                   ''soil_temperature'' ''soil'' ''temperature'' = raw"
    using nest by (simp add: no_nested_metrics_def promote_none)
  have s1: "map_series (temperature_sample h) ''temperature'' raw =
              Inr (set_prop raw ''temperature'' (JArr []))"
    by (rule map_series_absent) (rule a)
  have s2: "map_series (soil_temperature_sample h) ''soil_temperature''
              (set_prop raw ''temperature'' (JArr [])) =
              Inr (set_prop (set_prop raw ''temperature'' (JArr [])) ''soil_temperature'' (JArr []))"
    by (rule map_series_absent) (simp add: lookup_set_prop a)
  have s3: "map_series (canopy_temperature_sample h) ''canopy_temperature''
              (set_prop (set_prop raw ''temperature'' (JArr [])) ''soil_temperature'' (JArr [])) =
              Inr (set_prop (set_prop (set_prop raw ''temperature'' (JArr []))
                     ''soil_temperature'' (JArr [])) ''canopy_temperature'' (JArr []))"
    by (rule map_series_absent) (simp add: lookup_set_prop a)
  have s4: "map_series (rainfall_sample h) ''rainfall''
              (set_prop (set_prop (set_prop raw ''temperature'' (JArr []))
                     ''soil_temperature'' (JArr [])) ''canopy_temperature'' (JArr [])) =
              Inr (with_series raw)"
    unfolding with_series_def
    by (rule map_series_absent) (simp add: lookup_set_prop a)
  show ?thesis
    by (simp only: normalizeAnalytics_def truthy.simps typeof_object.simps own_entries.simps
          ebind_Inr p s1 s2 s3 s4 simp_thms if_False)
qed

text \<open>
  C4, as amended. An input object that has none of the expected keys, and whose
  \<^verbatim>\<open>weather\<close> and \<^verbatim>\<open>soil\<close> groupings hold nothing to promote, normalizes to an object in
  which every series key is the empty array, \<^verbatim>\<open>soil_profile\<close> is \<^verbatim>\<open>{}\<close> and \<^verbatim>\<open>alerts\<close> is
  \<^verbatim>\<open>{frost: [], heat: []}\<close>.
\<close>

theorem normalizeAnalytics_defaults:
  assumes keys: "list_all (\<lambda>k. k \<notin> set (map fst raw))
                   (series_keys @ [''soil_profile'', ''alerts''])"
    and nest: "no_nested_metrics raw"
  shows "\<exists>out. normalizeAnalytics h (JObj raw) = Inr (JObj out)
           \<and> list_all (\<lambda>k. lookup out k = JArr []) series_keys
           \<and> lookup out ''soil_profile'' = JObj []
           \<and> lookup out ''alerts'' = JObj [(''frost'', JArr []), (''heat'', JArr [])]"
proof -
  have un: "lookup raw k = JUndef"
    if "k \<in> set (series_keys @ [''soil_profile'', ''alerts''])" for k
    using keys that lookup_absent unfolding list_all_iff by blast
  have sk: "lookup raw k = JUndef" if "k \<in> set series_keys" for k
    using un that by simp
  have four: "lookup raw ''temperature'' = JUndef" "lookup raw ''soil_temperature'' = JUndef"
      "lookup raw ''canopy_temperature'' = JUndef" "lookup raw ''rainfall'' = JUndef"
    by (rule sk, simp add: series_keys_def)+
  let ?mid = "foldl ensure_array (with_series raw) expectedArrays"
  let ?out = "ensure_alerts (ensure_soil_profile ?mid)"
  have eq: "normalizeAnalytics h (JObj raw) = Inr (JObj ?out)"
    using four nest by (rule normalize_without_series)
  have series: "lookup ?out k = JArr []" if k: "k \<in> set series_keys" for k
  proof -
    have ne: "k \<noteq> ''alerts''" "k \<noteq> ''soil_profile''"
      using k by (auto simp: series_keys_def expectedArrays_def)
    have "lookup ?mid k = JArr []"
      using k sk [OF k]
      by (auto simp: lookup_foldl_ensure_array lookup_with_series series_keys_def)
    then show ?thesis
      by (simp add: lookup_ensure_alerts [OF ne(1)] lookup_ensure_soil_profile [OF ne(2)])
  qed
  have mid_other: "lookup ?mid k = lookup raw k" if "k \<notin> set series_keys" for k
    using that by (auto simp: lookup_foldl_ensure_array lookup_with_series series_keys_def)
  have soil: "lookup ?mid ''soil'' = lookup raw ''soil''"
    by (rule mid_other) (simp add: series_keys_def expectedArrays_def)
  have sp: "lookup ?mid ''soil_profile'' = JUndef"
    using mid_other [of "''soil_profile''"] un [of "''soil_profile''"]
    by (simp add: series_keys_def expectedArrays_def)
  have al: "lookup ?mid ''alerts'' = JUndef"
    using mid_other [of "''alerts''"] un [of "''alerts''"]
    by (simp add: series_keys_def expectedArrays_def)
  have prof: "lookup ?out ''soil_profile'' = JObj []"
    using nest
    by (simp add: lookup_ensure_alerts ensure_soil_profile_default [OF sp] soil
          no_nested_metrics_def)
  have alerts: "lookup ?out ''alerts'' = JObj [(''frost'', JArr []), (''heat'', JArr [])]"
    by (rule ensure_alerts_default) (simp add: lookup_ensure_soil_profile al)
  have "list_all (\<lambda>k. lookup ?out k = JArr []) series_keys"
    unfolding list_all_iff using series by blast
  then show ?thesis
    using eq prof alerts by blast
qed

theorem normalizeAnalytics_defaults_witness:
  "\<forall>h. list_all (\<lambda>k. k \<notin> set (map fst [(''growth_stage'', JStr ''tillering'')]))
          (series_keys @ [''soil_profile'', ''alerts''])
     \<and> no_nested_metrics [(''growth_stage'', JStr ''tillering'')]
     \<and> (\<exists>out. normalizeAnalytics h (JObj [(''growth_stage'', JStr ''tillering'')]) = Inr (JObj out)
           \<and> list_all (\<lambda>k. lookup out k = JArr []) series_keys
           \<and> lookup out ''soil_profile'' = JObj []
           \<and> lookup out ''alerts'' = JObj [(''frost'', JArr []), (''heat'', JArr [])])"
proof
  fix h
  have keys: "list_all (\<lambda>k. k \<notin> set (map fst [(''growth_stage'', JStr ''tillering'')]))
          (series_keys @ [''soil_profile'', ''alerts''])"
    by (simp add: series_keys_def expectedArrays_def)
  have nest: "no_nested_metrics [(''growth_stage'', JStr ''tillering'')]"
    by (simp add: no_nested_metrics_def nested_array_def lookup_def)
  show "list_all (\<lambda>k. k \<notin> set (map fst [(''growth_stage'', JStr ''tillering'')]))
          (series_keys @ [''soil_profile'', ''alerts''])
     \<and> no_nested_metrics [(''growth_stage'', JStr ''tillering'')]
     \<and> (\<exists>out. normalizeAnalytics h (JObj [(''growth_stage'', JStr ''tillering'')]) = Inr (JObj out)
           \<and> list_all (\<lambda>k. lookup out k = JArr []) series_keys
           \<and> lookup out ''soil_profile'' = JObj []
           \<and> lookup out ''alerts'' = JObj [(''frost'', JArr []), (''heat'', JArr [])])"
    using keys nest normalizeAnalytics_defaults [OF keys nest, of h] by blast
qed

text \<open>
  The claim as the specification states it asks only that the expected keys be absent. This
  input has none of them, yet its \<^verbatim>\<open>weather.temperature\<close> is promoted to \<^verbatim>\<open>temperature\<close>
  and its \<^verbatim>\<open>soil.profile\<close> becomes \<^verbatim>\<open>soil_profile\<close>.
\<close>

theorem normalizeAnalytics_defaults_counterexample:
  "\<forall>h. list_all
          (\<lambda>k. k \<notin> set (map fst
             [(''weather'', JObj [(''temperature'',
                 JArr [JObj [(''temp'', JNum (Fin 305)), (''date'', JStr ''2025-01-01'')]])]),
              (''soil'', JObj [(''profile'', JObj [(''ph'', JNum (Fin 7))])])]))
          (series_keys @ [''soil_profile'', ''alerts''])
     \<and> normalizeAnalytics h
         (JObj [(''weather'', JObj [(''temperature'',
                   JArr [JObj [(''temp'', JNum (Fin 305)), (''date'', JStr ''2025-01-01'')]])]),
                (''soil'', JObj [(''profile'', JObj [(''ph'', JNum (Fin 7))])])])
       = Inr (JObj
          [(''weather'', JObj [(''temperature'',
              JArr [JObj [(''temp'', JNum (Fin 305)), (''date'', JStr ''2025-01-01'')]])]),
           (''soil'', JObj [(''profile'', JObj [(''ph'', JNum (Fin 7))])]),
           (''temperature'',
              JArr [JObj [(''date'', JStr ''2025-01-01''), (''temp'', JNum (Fin 31.85))]]),
           (''soil_temperature'', JArr []), (''canopy_temperature'', JArr []),
           (''rainfall'', JArr []),
           (''ndvi_timeseries'', JArr []), (''evi_timeseries'', JArr []),
           (''gndvi_timeseries'', JArr []), (''savi_timeseries'', JArr []),
           (''ndwi_timeseries'', JArr []), (''msavi_timeseries'', JArr []),
           (''arvi_timeseries'', JArr []), (''lai_timeseries'', JArr []),
           (''chlorophyll_index'', JArr []), (''water_stress_index'', JArr []),
           (''biomass_proxy'', JArr []), (''canopy_fraction'', JArr []),
           (''soil_moisture'', JArr []),
           (''soil_profile'', JObj [(''ph'', JNum (Fin 7))]),
           (''alerts'', JObj [(''frost'', JArr []), (''heat'', JArr [])])])"
proof
  fix h
  have keys: "list_all
          (\<lambda>k. k \<notin> set (map fst
             [(''weather'', JObj [(''temperature'',
                 JArr [JObj [(''temp'', JNum (Fin 305)), (''date'', JStr ''2025-01-01'')]])]),
              (''soil'', JObj [(''profile'', JObj [(''ph'', JNum (Fin 7))])])]))
          (series_keys @ [''soil_profile'', ''alerts''])"
    by (simp add: series_keys_def expectedArrays_def)
  have run: "normalizeAnalytics h
         (JObj [(''weather'', JObj [(''temperature'',
                   JArr [JObj [(''temp'', JNum (Fin 305)), (''date'', JStr ''2025-01-01'')]])]),
                (''soil'', JObj [(''profile'', JObj [(''ph'', JNum (Fin 7))])])])
       = Inr (JObj
          [(''weather'', JObj [(''temperature'',
              JArr [JObj [(''temp'', JNum (Fin 305)), (''date'', JStr ''2025-01-01'')]])]),
           (''soil'', JObj [(''profile'', JObj [(''ph'', JNum (Fin 7))])]),
           (''temperature'',
              JArr [JObj [(''date'', JStr ''2025-01-01''), (''temp'', JNum (Fin 31.85))]]),
           (''soil_temperature'', JArr []), (''canopy_temperature'', JArr []),
           (''rainfall'', JArr []),
           (''ndvi_timeseries'', JArr []), (''evi_timeseries'', JArr []),
           (''gndvi_timeseries'', JArr []), (''savi_timeseries'', JArr []),
           (''ndwi_timeseries'', JArr []), (''msavi_timeseries'', JArr []),
           (''arvi_timeseries'', JArr []), (''lai_timeseries'', JArr []),
           (''chlorophyll_index'', JArr []), (''water_stress_index'', JArr []),
           (''biomass_proxy'', JArr []), (''canopy_fraction'', JArr []),
           (''soil_moisture'', JArr []),
           (''soil_profile'', JObj [(''ph'', JNum (Fin 7))]),
           (''alerts'', JObj [(''frost'', JArr []), (''heat'', JArr [])])])"
    by (simp add: normalizer_defs temperature_sample_def temp_value_def isNaN_def num_sub_def)
  show "list_all
          (\<lambda>k. k \<notin> set (map fst
             [(''weather'', JObj [(''temperature'',
                 JArr [JObj [(''temp'', JNum (Fin 305)), (''date'', JStr ''2025-01-01'')]])]),
              (''soil'', JObj [(''profile'', JObj [(''ph'', JNum (Fin 7))])])]))
          (series_keys @ [''soil_profile'', ''alerts''])
     \<and> normalizeAnalytics h
         (JObj [(''weather'', JObj [(''temperature'',
                   JArr [JObj [(''temp'', JNum (Fin 305)), (''date'', JStr ''2025-01-01'')]])]),
                (''soil'', JObj [(''profile'', JObj [(''ph'', JNum (Fin 7))])])])
       = Inr (JObj
          [(''weather'', JObj [(''temperature'',
              JArr [JObj [(''temp'', JNum (Fin 305)), (''date'', JStr ''2025-01-01'')]])]),
           (''soil'', JObj [(''profile'', JObj [(''ph'', JNum (Fin 7))])]),
           (''temperature'',
              JArr [JObj [(''date'', JStr ''2025-01-01''), (''temp'', JNum (Fin 31.85))]]),
           (''soil_temperature'', JArr []), (''canopy_temperature'', JArr []),
           (''rainfall'', JArr []),
           (''ndvi_timeseries'', JArr []), (''evi_timeseries'', JArr []),
           (''gndvi_timeseries'', JArr []), (''savi_timeseries'', JArr []),
           (''ndwi_timeseries'', JArr []), (''msavi_timeseries'', JArr []),
           (''arvi_timeseries'', JArr []), (''lai_timeseries'', JArr []),
           (''chlorophyll_index'', JArr []), (''water_stress_index'', JArr []),
           (''biomass_proxy'', JArr []), (''canopy_fraction'', JArr []),
           (''soil_moisture'', JArr []),
           (''soil_profile'', JObj [(''ph'', JNum (Fin 7))]),
           (''alerts'', JObj [(''frost'', JArr []), (''heat'', JArr [])])])"
    using keys run by (rule conjI)
qed

subsection \<open>Samples without a numeric field\<close>

text \<open>
  For \<^verbatim>\<open>soil_temperature\<close>, \<^verbatim>\<open>canopy_temperature\<close> and \<^verbatim>\<open>rainfall\<close>: a sample that has none
  of the accepted names and no numeric field besides \<^verbatim>\<open>date\<close> becomes the date with a
  \<^verbatim>\<open>null\<close> value.
\<close>

lemma null_value_without_numeric_field:
  assumes "truthy d" and "own_entries d = Inr kvs" and "first_numeric h kvs = Inr None"
  shows "has_prop ''soil_temp'' d = Inr False \<and> has_prop ''st'' d = Inr False \<longrightarrow>
           soil_temperature_sample h d =
             Inr (JObj [(''date'', read_prop d ''date''), (''soil_temp'', JNull)])"
    and "has_prop ''canopy_temp'' d = Inr False \<longrightarrow>
           canopy_temperature_sample h d =
             Inr (JObj [(''date'', read_prop d ''date''), (''canopy_temp'', JNull)])"
    and "has_prop ''rain_mm'' d = Inr False \<and> has_prop ''rain'' d = Inr False \<longrightarrow>
           rainfall_sample h d =
             Inr (JObj [(''date'', read_prop d ''date''), (''rain_mm'', JNull)])"
  using assms
  by (simp_all add: soil_temperature_sample_def canopy_temperature_sample_def
        rainfall_sample_def named_or_first_def)

text \<open>
  The same sample under \<^verbatim>\<open>temperature\<close> is returned as it came (\<^verbatim>\<open>return d\<close>, line 234):
  it keeps its fields and gets no \<^verbatim>\<open>temp\<close> key.
\<close>

lemma temperature_sample_without_numeric_field:
  assumes "truthy d" and "own_entries d = Inr kvs" and "first_numeric h kvs = Inr None"
    and "has_prop ''temp'' d = Inr False" and "has_prop ''temperature'' d = Inr False"
  shows "temperature_sample h d = Inr d"
  using assms by (simp add: temperature_sample_def temp_value_def named_or_first_def)

text \<open>
  C7 at the sample \<^verbatim>\<open>{date: "2025-01-01"}\<close>: three families give the date with a \<^verbatim>\<open>null\<close>
  value, \<^verbatim>\<open>temperature\<close> gives the sample back without a value.
\<close>

theorem sample_without_value:
  "\<forall>h. temperature_sample h (JObj [(''date'', JStr ''2025-01-01'')])
          = Inr (JObj [(''date'', JStr ''2025-01-01'')])
     \<and> soil_temperature_sample h (JObj [(''date'', JStr ''2025-01-01'')])
          = Inr (JObj [(''date'', JStr ''2025-01-01''), (''soil_temp'', JNull)])
     \<and> canopy_temperature_sample h (JObj [(''date'', JStr ''2025-01-01'')])
          = Inr (JObj [(''date'', JStr ''2025-01-01''), (''canopy_temp'', JNull)])
     \<and> rainfall_sample h (JObj [(''date'', JStr ''2025-01-01'')])
          = Inr (JObj [(''date'', JStr ''2025-01-01''), (''rain_mm'', JNull)])"
  by (simp add: temperature_sample_def temp_value_def soil_temperature_sample_def
        canopy_temperature_sample_def rainfall_sample_def named_or_first_def lookup_def)

section \<open>Properties of the dashboard's reconciliation\<close>

lemma normalizeAnalytics_empty:
  "normalizeAnalytics h (JObj []) = Inr (JObj defaults_only)"
  by (simp add: normalizer_defs defaults_only_def)

lemma parseCoords_empty_array:
  "parseCoords h (JArr []) = Some (Inr (JArr []))"
  by (simp add: parseCoords_nonstring parseCoords_value_unknown_shape unknown_shape_def)

lemma handle_reply_no_fetch:
  "\<not> list_ex is_fetch (snd (handle_reply h mounted showLabel key sd ed data st))"
  by (simp add: handle_reply_def split: sum.splits)

lemma fetch_resolved_hit:
  assumes "\<not> force" and "truthy (lookup (cache st) (cache_key fid sd ed))"
  shows "fetch_resolved h fid reply mounted cc sd ed showLabel force st =
           (st\<lparr>analytics := lookup (cache st) (cache_key fid sd ed)\<rparr>, [])"
  using assms by (simp add: fetch_resolved_def)

lemma fetch_resolved_forced:
  "\<exists>st' effects.
      fetch_resolved h fid reply mounted cc sd ed showLabel True st =
        (st', Fetch (request_body cc sd ed fid True) # effects)
      \<and> \<not> list_ex is_fetch effects"
proof (cases reply)
  case None
  then show ?thesis by (simp add: fetch_resolved_def)
next
  case (Some data)
  obtain st' effects where hr:
    "handle_reply h mounted showLabel (cache_key fid sd ed) sd ed data
       (st\<lparr>loading := True,
           updatingLabel := (if showLabel
              then ''Analyzing between '' @ sd @ '' and '' @ ed @ ''...'' else updatingLabel st),
           analytics := JNull\<rparr>) = (st', effects)"
    by (cases "handle_reply h mounted showLabel (cache_key fid sd ed) sd ed data
       (st\<lparr>loading := True,
           updatingLabel := (if showLabel
              then ''Analyzing between '' @ sd @ '' and '' @ ed @ ''...'' else updatingLabel st),
           analytics := JNull\<rparr>)")
  have "\<not> list_ex is_fetch effects"
    using handle_reply_no_fetch [of h mounted showLabel "cache_key fid sd ed" sd ed data] hr
    by (metis snd_conv)
  then show ?thesis
    using Some hr by (simp add: fetch_resolved_def)
qed

lemma fetch_resolved_overwrites:
  assumes "get_prop data ''error'' = Inr err" and "\<not> truthy err"
    and "normalizeAnalytics h data = Inr n"
  shows "cache (fst (fetch_resolved h fid (Some data) True cc sd ed showLabel True st)) =
           set_prop (cache st) (cache_key fid sd ed) n"
  using assms by (simp add: fetch_resolved_def handle_reply_def)

text \<open>
  C2, as amended. Whenever the resolver returns on the farm's coordinates: without
  \<^verbatim>\<open>forceRefresh\<close> a truthy entry under \<^verbatim>\<open>farmId_start_end\<close> becomes the analytics and no
  request is made; with \<^verbatim>\<open>forceRefresh\<close> exactly one request is made whatever the cache
  holds; and a reply without a truthy \<^verbatim>\<open>error\<close> that the normalizer accepts replaces the
  entry under the key, provided the view is still mounted when the reply arrives.
\<close>

theorem cache_hit_and_forced_refresh:
  assumes "parseCoords h coords = Some (Inr cc)"
  shows "(\<not> force \<and> truthy (lookup (cache st) (cache_key fid sd ed)) \<longrightarrow>
            fetchAnalytics h fid reply mounted coords sd ed showLabel force st =
              Some (Inr (st\<lparr>analytics := lookup (cache st) (cache_key fid sd ed)\<rparr>, [])))
       \<and> (\<exists>st' effects.
            fetchAnalytics h fid reply mounted coords sd ed showLabel True st =
              Some (Inr (st', Fetch (request_body cc sd ed fid True) # effects))
            \<and> \<not> list_ex is_fetch effects)
       \<and> (get_prop data ''error'' = Inr err \<and> \<not> truthy err \<and> normalizeAnalytics h data = Inr n \<longrightarrow>
            (\<exists>st' effects.
               fetchAnalytics h fid (Some data) True coords sd ed showLabel True st =
                 Some (Inr (st', effects))
               \<and> cache st' = set_prop (cache st) (cache_key fid sd ed) n))"
proof (intro conjI impI)
  assume "\<not> force \<and> truthy (lookup (cache st) (cache_key fid sd ed))"
  then show "fetchAnalytics h fid reply mounted coords sd ed showLabel force st =
              Some (Inr (st\<lparr>analytics := lookup (cache st) (cache_key fid sd ed)\<rparr>, []))"
    by (simp add: fetchAnalytics_def assms fetch_resolved_hit)
next
  show "\<exists>st' effects.
            fetchAnalytics h fid reply mounted coords sd ed showLabel True st =
              Some (Inr (st', Fetch (request_body cc sd ed fid True) # effects))
            \<and> \<not> list_ex is_fetch effects"
    using fetch_resolved_forced [of h fid reply mounted cc sd ed showLabel st]
    by (simp add: fetchAnalytics_def assms)
next
  assume a: "get_prop data ''error'' = Inr err \<and> \<not> truthy err \<and> normalizeAnalytics h data = Inr n"
  have "cache (fst (fetch_resolved h fid (Some data) True cc sd ed showLabel True st)) =
           set_prop (cache st) (cache_key fid sd ed) n"
    using a by (intro fetch_resolved_overwrites) auto
  then show "\<exists>st' effects.
               fetchAnalytics h fid (Some data) True coords sd ed showLabel True st =
                 Some (Inr (st', effects))
               \<and> cache st' = set_prop (cache st) (cache_key fid sd ed) n"
    by (simp add: fetchAnalytics_def assms) (metis prod.collapse)
qed

theorem cache_hit_and_forced_refresh_witness:
  "\<forall>h. parseCoords h (JArr []) = Some (Inr (JArr []))
     \<and> truthy (lookup (cache stale_dashboard) (cache_key ''f1'' ''2025-01-01'' ''2025-03-31''))
     \<and> fetchAnalytics h ''f1'' None True (JArr []) ''2025-01-01'' ''2025-03-31'' True False
          stale_dashboard
        = Some (Inr (stale_dashboard\<lparr>analytics := JObj [(''growth_stage'', JStr ''tillering'')]\<rparr>,
                     []))
     \<and> get_prop (JObj []) ''error'' = Inr JUndef
     \<and> normalizeAnalytics h (JObj []) = Inr (JObj defaults_only)
     \<and> (\<exists>st' effects.
          fetchAnalytics h ''f1'' (Some (JObj [])) True (JArr []) ''2025-01-01'' ''2025-03-31''
            True True stale_dashboard
          = Some (Inr (st', Fetch (request_body (JArr []) ''2025-01-01'' ''2025-03-31'' ''f1'' True)
                              # effects))
          \<and> \<not> list_ex is_fetch effects
          \<and> cache st' = [(''f1_2025-01-01_2025-03-31'', JObj defaults_only)])"
  (is "\<forall>h. ?pc h \<and> ?hit \<and> ?served h \<and> ?noerr \<and> ?norm h \<and> ?forced h")
proof
  fix h
  note t = cache_hit_and_forced_refresh [OF parseCoords_empty_array, of _ stale_dashboard
             "''f1''" "''2025-01-01''" "''2025-03-31''" h]
  have hit: ?hit
    by (simp add: stale_dashboard_def cache_key_def lookup_def)
  have look: "lookup (cache stale_dashboard) (cache_key ''f1'' ''2025-01-01'' ''2025-03-31'')
                = JObj [(''growth_stage'', JStr ''tillering'')]"
    by (simp add: stale_dashboard_def cache_key_def lookup_def)
  have served: "?served h"
    using t [of False None True True "JObj []" JUndef "JObj defaults_only"] hit look by simp
  have noerr: ?noerr
    by (simp add: get_prop_def lookup_def)
  have over: "set_prop (cache stale_dashboard) (cache_key ''f1'' ''2025-01-01'' ''2025-03-31'')
                (JObj defaults_only) = [(''f1_2025-01-01_2025-03-31'', JObj defaults_only)]"
    by (simp add: stale_dashboard_def cache_key_def)
  from t [of True "Some (JObj [])" True True "JObj []" JUndef "JObj defaults_only"]
  have "?forced h"
    using noerr normalizeAnalytics_empty [of h] over by auto
  then show "?pc h \<and> ?hit \<and> ?served h \<and> ?noerr \<and> ?norm h \<and> ?forced h"
    using parseCoords_empty_array hit served noerr normalizeAnalytics_empty by blast
qed

text \<open>
  The claim as stated has the forced refresh overwrite the entry on every success. The
  write is inside \<^verbatim>\<open>if (isMounted.current)\<close> (line 556): a reply that arrives after the
  view was unmounted is normalized and dropped, and the stale entry stays. And an entry
  that is present but falsy (\<^verbatim>\<open>null\<close>, what the normalizer makes of a reply that is no
  object) is not served: the request is made.
\<close>

theorem cache_hit_and_forced_refresh_counterexample:
  "\<forall>h. fetchAnalytics h ''f1'' (Some (JObj [])) False (JArr []) ''2025-01-01'' ''2025-03-31''
          True True stale_dashboard
        = Some (Inr (stale_dashboard
                       \<lparr>loading := True,
                        updatingLabel := ''Analyzing between 2025-01-01 and 2025-03-31...'',
                        analytics := JNull\<rparr>,
                     [Fetch (request_body (JArr []) ''2025-01-01'' ''2025-03-31'' ''f1'' True),
                      Normalize (JObj [])]))
     \<and> fetchAnalytics h ''f1'' None True (JArr []) ''2025-01-01'' ''2025-03-31'' False False
          \<lparr>cache = [(''f1_2025-01-01_2025-03-31'', JNull)], analytics = JNull,
           loading = False, updatingLabel = []\<rparr>
        = Some (Inr (\<lparr>cache = [(''f1_2025-01-01_2025-03-31'', JNull)], analytics = JNull,
                      loading = False, updatingLabel = []\<rparr>,
                     [Fetch (request_body (JArr []) ''2025-01-01'' ''2025-03-31'' ''f1'' False),
                      Alert fetch_failed]))"
  by (simp add: fetchAnalytics_def parseCoords_empty_array fetch_resolved_def handle_reply_def
        get_prop_def lookup_def normalizeAnalytics_empty cache_key_def stale_dashboard_def)

section \<open>Provider errors\<close>

lemma fetch_resolved_error:
  assumes "get_prop data ''error'' = Inr err" and "truthy err"
    and "force \<or> \<not> truthy (lookup (cache st) (cache_key fid sd ed))"
  shows "\<exists>st'. fetch_resolved h fid (Some data) mounted cc sd ed showLabel force st =
           (st', [Fetch (request_body cc sd ed fid force),
                  Alert (case to_string h err of
                           Inl e \<Rightarrow> fetch_failed | Inr msg \<Rightarrow> ''Server error: '' @ msg)])
         \<and> cache st' = cache st \<and> analytics st' = JNull"
  using assms by (auto simp add: fetch_resolved_def handle_reply_def split: sum.splits)

lemma insights_reply_error:
  assumes "get_prop data ''error'' = Inr err" and "truthy err"
  shows "\<exists>st'. insights_reply h fid cancelled late (Some data) stored now st = (st', [], None)
           \<and> shown st' = shown st
           \<and> (\<not> cancelled \<longrightarrow> starts_with ''Failed to fetch analytics'' (message st'))"
  using assms
  by (auto simp add: insights_reply_def finally_idle_def fetch_failed_insights_def starts_with_def
        split: sum.splits)

text \<open>
  C5, as amended. A reply whose top-level \<^verbatim>\<open>error\<close> is truthy is never normalized and
  never cached. The dashboard raises an alert with it and leaves its cache as it was; the
  insights view writes nothing to the store and, unless it was cancelled meanwhile, sets
  its error message.
\<close>

theorem provider_error_not_cached:
  assumes "get_prop data ''error'' = Inr err" and "truthy err"
  shows "(parseCoords h coords = Some (Inr cc)
            \<and> (force \<or> \<not> truthy (lookup (cache st) (cache_key fid sd ed))) \<longrightarrow>
          (\<exists>st'. fetchAnalytics h fid (Some data) mounted coords sd ed showLabel force st =
                   Some (Inr (st', [Fetch (request_body cc sd ed fid force),
                                    Alert (case to_string h err of
                                             Inl e \<Rightarrow> fetch_failed
                                           | Inr msg \<Rightarrow> ''Server error: '' @ msg)]))
                \<and> cache st' = cache st \<and> analytics st' = JNull))
       \<and> (cached_entry h fid saved = Inr None
            \<and> truthy coordinates \<and> truthy (read_prop coordinates ''length'') \<longrightarrow>
          (\<exists>ist'. loadForFarm h fid coordinates saved (Some data) stored now cancelled late ist =
                    (ist', [Fetch (insights_request coordinates fid)], None)
                 \<and> shown ist' = shown ist
                 \<and> (\<not> cancelled \<longrightarrow> starts_with ''Failed to fetch analytics'' (message ist'))))"
proof (intro conjI impI)
  assume a: "parseCoords h coords = Some (Inr cc)
               \<and> (force \<or> \<not> truthy (lookup (cache st) (cache_key fid sd ed)))"
  then show "\<exists>st'. fetchAnalytics h fid (Some data) mounted coords sd ed showLabel force st =
                   Some (Inr (st', [Fetch (request_body cc sd ed fid force),
                                    Alert (case to_string h err of
                                             Inl e \<Rightarrow> fetch_failed
                                           | Inr msg \<Rightarrow> ''Server error: '' @ msg)]))
                \<and> cache st' = cache st \<and> analytics st' = JNull"
    using fetch_resolved_error [OF assms, of force st fid sd ed h mounted cc showLabel]
    by (simp add: fetchAnalytics_def)
next
  assume b: "cached_entry h fid saved = Inr None
               \<and> truthy coordinates \<and> truthy (read_prop coordinates ''length'')"
  obtain ist' where r:
    "insights_reply h fid cancelled late (Some data) stored now (ist\<lparr>busy := True\<rparr>)
       = (ist', [], None)"
    "shown ist' = shown (ist\<lparr>busy := True\<rparr>)"
    "\<not> cancelled \<longrightarrow> starts_with ''Failed to fetch analytics'' (message ist')"
    using insights_reply_error [OF assms, of h fid cancelled late stored now "ist\<lparr>busy := True\<rparr>"]
    by blast
  show "\<exists>ist'. loadForFarm h fid coordinates saved (Some data) stored now cancelled late ist =
                    (ist', [Fetch (insights_request coordinates fid)], None)
                 \<and> shown ist' = shown ist
                 \<and> (\<not> cancelled \<longrightarrow> starts_with ''Failed to fetch analytics'' (message ist'))"
    using b r by (simp add: loadForFarm_def)
qed

lemma cached_entry_no_blob: "cached_entry h fid NoBlob = Inr None"
  by (simp add: cached_entry_def)

theorem provider_error_not_cached_witness:
  "\<forall>h. get_prop quota_reply ''error'' = Inr (JStr ''quota exceeded'')
     \<and> truthy (JStr ''quota exceeded'')
     \<and> parseCoords h (JArr []) = Some (Inr (JArr []))
     \<and> (\<exists>st'. fetchAnalytics h ''f1'' (Some quota_reply) True (JArr []) ''2025-01-01''
                 ''2025-03-31'' True True stale_dashboard =
                Some (Inr (st', [Fetch (request_body (JArr []) ''2025-01-01'' ''2025-03-31''
                                          ''f1'' True),
                                 Alert ''Server error: quota exceeded'']))
             \<and> cache st' = cache stale_dashboard)
     \<and> cached_entry h ''f1'' NoBlob = Inr None
     \<and> truthy one_vertex \<and> truthy (read_prop one_vertex ''length'')
     \<and> (\<exists>ist'. loadForFarm h ''f1'' one_vertex NoBlob (Some quota_reply) NoBlob 0 False False
                  fresh_insights =
                 (ist', [Fetch (insights_request one_vertex ''f1'')], None)
              \<and> starts_with ''Failed to fetch analytics'' (message ist'))"
  (is "\<forall>h. ?e \<and> ?t \<and> ?pc h \<and> ?dash h \<and> ?ce h \<and> ?v \<and> ?len \<and> ?ins h")
proof
  fix h
  have e: ?e and t: ?t
    by (simp_all add: quota_reply_def get_prop_def lookup_def)
  have v: ?v and len: ?len
    by (simp_all add: one_vertex_def)
  note p = provider_error_not_cached [OF e t, where h = h and coords = "JArr []"
      and cc = "JArr []" and force = True and st = stale_dashboard and fid = "''f1''"
      and sd = "''2025-01-01''" and ed = "''2025-03-31''" and mounted = True
      and showLabel = True and saved = NoBlob and coordinates = one_vertex and stored = NoBlob
      and now = 0 and cancelled = False and late = False and ist = fresh_insights]
  have "?dash h"
    using p parseCoords_empty_array [of h] by auto
  moreover have "?ins h"
    using p cached_entry_no_blob [of h] v len by auto
  ultimately show "?e \<and> ?t \<and> ?pc h \<and> ?dash h \<and> ?ce h \<and> ?v \<and> ?len \<and> ?ins h"
    using e t v len parseCoords_empty_array cached_entry_no_blob by blast
qed

text \<open>
  The claim as stated covers every reply with an \<^verbatim>\<open>error\<close> field and always surfaces it.
  The insights view reports only under \<^verbatim>\<open>if (!cancelled)\<close> (line 231): a cancelled view
  keeps its state. And both views test \<^verbatim>\<open>if (data.error)\<close>: a reply whose \<^verbatim>\<open>error\<close> is
  \<^verbatim>\<open>null\<close> is normalized and cached.
\<close>

lemma normalizeAnalytics_null_error:
  "normalizeAnalytics h (JObj [(''error'', JNull)]) = Inr (JObj ((''error'', JNull) # defaults_only))"
  by (simp add: normalizer_defs defaults_only_def)

theorem provider_error_not_cached_counterexample:
  "\<forall>h. loadForFarm h ''f1'' one_vertex NoBlob (Some quota_reply) NoBlob 0 True True fresh_insights
        = (fresh_insights\<lparr>busy := True\<rparr>, [Fetch (insights_request one_vertex ''f1'')], None)
     \<and> fetchAnalytics h ''f1'' (Some (JObj [(''error'', JNull)])) True (JArr []) ''2025-01-01''
          ''2025-03-31'' False False
          \<lparr>cache = [], analytics = JNull, loading = False, updatingLabel = []\<rparr>
        = Some (Inr (\<lparr>cache = [(''f1_2025-01-01_2025-03-31'',
                                JObj ((''error'', JNull) # defaults_only))],
                      analytics = JObj ((''error'', JNull) # defaults_only),
                      loading = False, updatingLabel = []\<rparr>,
                     [Fetch (request_body (JArr []) ''2025-01-01'' ''2025-03-31'' ''f1'' False),
                      Normalize (JObj [(''error'', JNull)])]))"
proof
  fix h
  have ins: "loadForFarm h ''f1'' one_vertex NoBlob (Some quota_reply) NoBlob 0 True True
               fresh_insights
        = (fresh_insights\<lparr>busy := True\<rparr>, [Fetch (insights_request one_vertex ''f1'')], None)"
    by (simp add: loadForFarm_def cached_entry_no_blob one_vertex_def insights_reply_def
          quota_reply_def get_prop_def lookup_def)
  have dash: "fetchAnalytics h ''f1'' (Some (JObj [(''error'', JNull)])) True (JArr [])
          ''2025-01-01'' ''2025-03-31'' False False
          \<lparr>cache = [], analytics = JNull, loading = False, updatingLabel = []\<rparr>
        = Some (Inr (\<lparr>cache = [(''f1_2025-01-01_2025-03-31'',
                                JObj ((''error'', JNull) # defaults_only))],
                      analytics = JObj ((''error'', JNull) # defaults_only),
                      loading = False, updatingLabel = []\<rparr>,
                     [Fetch (request_body (JArr []) ''2025-01-01'' ''2025-03-31'' ''f1'' False),
                      Normalize (JObj [(''error'', JNull)])]))"
    by (simp add: fetchAnalytics_def parseCoords_empty_array fetch_resolved_def handle_reply_def
          get_prop_def lookup_def normalizeAnalytics_null_error cache_key_def spread_def)
  show "loadForFarm h ''f1'' one_vertex NoBlob (Some quota_reply) NoBlob 0 True True fresh_insights
        = (fresh_insights\<lparr>busy := True\<rparr>, [Fetch (insights_request one_vertex ''f1'')], None)
     \<and> fetchAnalytics h ''f1'' (Some (JObj [(''error'', JNull)])) True (JArr []) ''2025-01-01''
          ''2025-03-31'' False False
          \<lparr>cache = [], analytics = JNull, loading = False, updatingLabel = []\<rparr>
        = Some (Inr (\<lparr>cache = [(''f1_2025-01-01_2025-03-31'',
                                JObj ((''error'', JNull) # defaults_only))],
                      analytics = JObj ((''error'', JNull) # defaults_only),
                      loading = False, updatingLabel = []\<rparr>,
                     [Fetch (request_body (JArr []) ''2025-01-01'' ''2025-03-31'' ''f1'' False),
                      Normalize (JObj [(''error'', JNull)])]))"
    using ins dash by (rule conjI)
qed

section \<open>What the two views write into the cache\<close>

lemma fetch_resolved_cache:
  assumes "fetch_resolved h fid reply mounted cc sd ed showLabel force st = (st', effects)"
  shows "cache st' = cache st
         \<or> (\<exists>data n. reply = Some data \<and> normalizeAnalytics h data = Inr n
                \<and> cache st' = set_prop (cache st) (cache_key fid sd ed) n)"
proof (cases "\<not> force \<and> truthy (lookup (cache st) (cache_key fid sd ed))")
  case True
  then show ?thesis
    using assms by (auto simp add: fetch_resolved_def)
next
  case False
  show ?thesis
  proof (cases reply)
    case None
    then show ?thesis
      using assms False by (auto simp add: fetch_resolved_def)
  next
    case (Some data)
    then show ?thesis
      using assms False
      by (auto simp add: fetch_resolved_def handle_reply_def split: sum.splits if_splits)
  qed
qed

lemma write_back_shape:
  assumes "write_back h fid data stored now = Some blob"
  shows "\<exists>g key. (stored = Blob g \<or> stored = NoBlob \<and> g = [])
           \<and> starts_with (fid @ ''_'') key
           \<and> blob = JObj (set_prop g key
                 (JObj [(''_cached_at_ts'', JNum (Fin (of_int (now div 1000)))),
                        (''response'', data)]))"
proof -
  from assms obtain g start end_date where
      g: "stored = Blob g \<or> stored = NoBlob \<and> g = []"
    and b: "blob = JObj (set_prop g (fid @ ''_'' @ start @ ''_'' @ end_date)
                 (JObj [(''_cached_at_ts'', JNum (Fin (of_int (now div 1000)))),
                        (''response'', data)]))"
    by (cases stored) (auto simp add: write_back_def split: sum.splits)
  have "starts_with (fid @ ''_'') (fid @ ''_'' @ start @ ''_'' @ end_date)"
    by (simp add: starts_with_def)
  with g b show ?thesis
    by blast
qed

lemma insights_reply_put:
  assumes "insights_reply h fid cancelled late reply stored now st = (st', effects, Some blob)"
  shows "\<exists>data. reply = Some data \<and> write_back h fid data stored now = Some blob"
  using assms
  by (cases reply) (auto simp add: insights_reply_def split: sum.splits if_splits)

lemma loadForFarm_put:
  assumes "loadForFarm h fid coordinates saved reply stored now cancelled late st
             = (st', effects, Some blob)"
  shows "\<exists>data. reply = Some data \<and> write_back h fid data stored now = Some blob"
proof -
  from assms obtain st'' effects' where
    "insights_reply h fid cancelled late reply stored now (st\<lparr>busy := True\<rparr>)
       = (st'', effects', Some blob)"
    by (auto simp add: loadForFarm_def split: sum.splits option.splits if_splits prod.splits)
  then show ?thesis
    by (rule insights_reply_put)
qed

text \<open>
  C9, as amended. The dashboard writes under \<^verbatim>\<open>farmId_start_end\<close> the normalized analytics
  itself, with no timestamp and no wrapper, and persists its whole cache object. The
  insights view writes, under a key that starts with \<^verbatim>\<open>farmId_\<close>, a record of
  \<^verbatim>\<open>_cached_at_ts\<close> (the clock in whole seconds) and \<^verbatim>\<open>response\<close>, the provider's reply as
  it was received, into the object it read from the store.
\<close>

theorem cache_writes:
  "(fetchAnalytics h fid reply mounted coords sd ed showLabel force st = Some (Inr (st', effects))
      \<longrightarrow> saveCache st' = JObj (cache st')
          \<and> (cache st' = cache st
             \<or> (\<exists>data n. reply = Some data \<and> normalizeAnalytics h data = Inr n
                    \<and> cache st' = set_prop (cache st) (cache_key fid sd ed) n)))
   \<and> (loadForFarm h fid coordinates saved ireply stored now cancelled late ist
         = (ist', ieffects, Some blob)
      \<longrightarrow> (\<exists>g key data. ireply = Some data
             \<and> (stored = Blob g \<or> stored = NoBlob \<and> g = [])
             \<and> starts_with (fid @ ''_'') key
             \<and> blob = JObj (set_prop g key
                   (JObj [(''_cached_at_ts'', JNum (Fin (of_int (now div 1000)))),
                          (''response'', data)]))))"
proof (intro conjI impI)
  assume "fetchAnalytics h fid reply mounted coords sd ed showLabel force st
            = Some (Inr (st', effects))"
  then obtain cc where
    "fetch_resolved h fid reply mounted cc sd ed showLabel force st = (st', effects)"
    by (cases "parseCoords h coords")
       (auto simp add: fetchAnalytics_def split: sum.splits)
  then show "cache st' = cache st
         \<or> (\<exists>data n. reply = Some data \<and> normalizeAnalytics h data = Inr n
                \<and> cache st' = set_prop (cache st) (cache_key fid sd ed) n)"
    by (rule fetch_resolved_cache)
next
  show "saveCache st' = JObj (cache st')"
    by (simp add: saveCache_def)
next
  assume "loadForFarm h fid coordinates saved ireply stored now cancelled late ist
            = (ist', ieffects, Some blob)"
  then obtain data where "ireply = Some data" "write_back h fid data stored now = Some blob"
    using loadForFarm_put by blast
  then show "\<exists>g key data. ireply = Some data
             \<and> (stored = Blob g \<or> stored = NoBlob \<and> g = [])
             \<and> starts_with (fid @ ''_'') key
             \<and> blob = JObj (set_prop g key
                   (JObj [(''_cached_at_ts'', JNum (Fin (of_int (now div 1000)))),
                          (''response'', data)]))"
    using write_back_shape by blast
qed

lemma one_vertex_truthy: "truthy one_vertex \<and> truthy (read_prop one_vertex ''length'')"
  by (simp add: one_vertex_def)

lemma forced_refresh_of_empty_reply:
  "fetchAnalytics h ''f1'' (Some (JObj [])) True (JArr []) ''2025-01-01'' ''2025-03-31''
     True True stale_dashboard
   = Some (Inr (\<lparr>cache = [(''f1_2025-01-01_2025-03-31'', JObj defaults_only)],
                 analytics = JObj defaults_only, loading = False,
                 updatingLabel = ''Analysis complete between 2025-01-01 and 2025-03-31''\<rparr>,
                [Fetch (request_body (JArr []) ''2025-01-01'' ''2025-03-31'' ''f1'' True),
                 Normalize (JObj [])]))"
  by (simp add: fetchAnalytics_def parseCoords_empty_array fetch_resolved_def handle_reply_def
        get_prop_def lookup_def normalizeAnalytics_empty cache_key_def stale_dashboard_def
        spread_def)

lemma insights_load_of_kelvin_reply:
  "loadForFarm h ''f1'' one_vertex NoBlob (Some kelvin_reply) NoBlob 1700000000123 False False
     fresh_insights
   = (fresh_insights\<lparr>shown := insights_normalize h kelvin_reply\<rparr>,
      [Fetch (insights_request one_vertex ''f1''), Normalize kelvin_reply],
      Some (JObj [(''f1_auto_auto'',
                   JObj [(''_cached_at_ts'', JNum (Fin 1700000000)),
                         (''response'', kelvin_reply)])]))"
proof -
  have k: "get_prop kelvin_reply ''error'' = Inr JUndef"
    "read_prop kelvin_reply ''start_date'' = JUndef"
    "read_prop kelvin_reply ''end_date'' = JUndef"
    by (simp_all add: kelvin_reply_def get_prop_def lookup_def)
  have w: "write_back h ''f1'' kelvin_reply NoBlob 1700000000123
             = Some (JObj [(''f1_auto_auto'',
                   JObj [(''_cached_at_ts'', JNum (Fin 1700000000)),
                         (''response'', kelvin_reply)])])"
    by (simp add: write_back_def k date_or_auto_def)
  show ?thesis
    by (simp add: loadForFarm_def cached_entry_no_blob one_vertex_truthy insights_reply_def k w
          finally_idle_def fresh_insights_def)
qed

theorem cache_writes_witness:
  "\<forall>h. fetchAnalytics h ''f1'' (Some (JObj [])) True (JArr []) ''2025-01-01'' ''2025-03-31''
          True True stale_dashboard
        = Some (Inr (\<lparr>cache = [(''f1_2025-01-01_2025-03-31'', JObj defaults_only)],
                      analytics = JObj defaults_only, loading = False,
                      updatingLabel = ''Analysis complete between 2025-01-01 and 2025-03-31''\<rparr>,
                     [Fetch (request_body (JArr []) ''2025-01-01'' ''2025-03-31'' ''f1'' True),
                      Normalize (JObj [])]))
     \<and> saveCache \<lparr>cache = [(''f1_2025-01-01_2025-03-31'', JObj defaults_only)],
                   analytics = JObj defaults_only, loading = False,
                   updatingLabel = ''Analysis complete between 2025-01-01 and 2025-03-31''\<rparr>
        = JObj [(''f1_2025-01-01_2025-03-31'', JObj defaults_only)]
     \<and> loadForFarm h ''f1'' one_vertex NoBlob (Some kelvin_reply) NoBlob 1700000000123 False False
          fresh_insights
        = (fresh_insights\<lparr>shown := insights_normalize h kelvin_reply\<rparr>,
           [Fetch (insights_request one_vertex ''f1''), Normalize kelvin_reply],
           Some (JObj [(''f1_auto_auto'',
                        JObj [(''_cached_at_ts'', JNum (Fin 1700000000)),
                              (''response'', kelvin_reply)])]))
     \<and> (\<exists>g key data. Some kelvin_reply = Some data
           \<and> (NoBlob = Blob g \<or> NoBlob = NoBlob \<and> g = [])
           \<and> starts_with ''f1_'' key
           \<and> JObj [(''f1_auto_auto'',
                     JObj [(''_cached_at_ts'', JNum (Fin 1700000000)),
                           (''response'', kelvin_reply)])]
               = JObj (set_prop g key
                   (JObj [(''_cached_at_ts'', JNum (Fin (of_int (1700000000123 div 1000)))),
                          (''response'', data)])))"
  (is "\<forall>h. ?dash h \<and> ?save \<and> ?ins h \<and> ?shape")
proof
  fix h
  note t = cache_writes [where h = h and fid = "''f1''" and reply = "Some (JObj [])"
      and mounted = True and coords = "JArr []" and sd = "''2025-01-01''"
      and ed = "''2025-03-31''" and showLabel = True and force = True and st = stale_dashboard
      and st' = "\<lparr>cache = [(''f1_2025-01-01_2025-03-31'', JObj defaults_only)],
                   analytics = JObj defaults_only, loading = False,
                   updatingLabel = ''Analysis complete between 2025-01-01 and 2025-03-31''\<rparr>"
      and effects = "[Fetch (request_body (JArr []) ''2025-01-01'' ''2025-03-31'' ''f1'' True),
                      Normalize (JObj [])]"
      and coordinates = one_vertex and saved = NoBlob and ireply = "Some kelvin_reply"
      and stored = NoBlob and now = 1700000000123 and cancelled = False and late = False
      and ist = fresh_insights
      and ist' = "fresh_insights\<lparr>shown := insights_normalize h kelvin_reply\<rparr>"
      and ieffects = "[Fetch (insights_request one_vertex ''f1''), Normalize kelvin_reply]"
      and blob = "JObj [(''f1_auto_auto'',
                        JObj [(''_cached_at_ts'', JNum (Fin 1700000000)),
                              (''response'', kelvin_reply)])]"]
  have d: "?dash h"
    by (rule forced_refresh_of_empty_reply)
  have i: "?ins h"
    by (rule insights_load_of_kelvin_reply)
  from t d have s: ?save
    by simp
  from t i have sh: ?shape
    by simp
  show "?dash h \<and> ?save \<and> ?ins h \<and> ?shape"
    using d s i sh by blast
qed

text \<open>
  The claim as stated gives every written value a numeric timestamp and a \<^verbatim>\<open>response\<close>
  that holds normalized analytics. The dashboard's entry is the normalized object itself:
  it has neither field (line 560). The insights view stores the reply as received
  (line 244): its \<^verbatim>\<open>response\<close> still has \<^verbatim>\<open>temp: 305\<close> and no \<^verbatim>\<open>alerts\<close>.
\<close>

theorem cache_writes_counterexample:
  "\<forall>h. fetchAnalytics h ''f1'' (Some (JObj [])) True (JArr []) ''2025-01-01'' ''2025-03-31''
          True True stale_dashboard
        = Some (Inr (\<lparr>cache = [(''f1_2025-01-01_2025-03-31'', JObj defaults_only)],
                      analytics = JObj defaults_only, loading = False,
                      updatingLabel = ''Analysis complete between 2025-01-01 and 2025-03-31''\<rparr>,
                     [Fetch (request_body (JArr []) ''2025-01-01'' ''2025-03-31'' ''f1'' True),
                      Normalize (JObj [])]))
     \<and> read_prop (JObj defaults_only) ''_cached_at_ts'' = JUndef
     \<and> read_prop (JObj defaults_only) ''response'' = JUndef
     \<and> loadForFarm h ''f1'' one_vertex NoBlob (Some kelvin_reply) NoBlob 1700000000123 False False
          fresh_insights
        = (fresh_insights\<lparr>shown := insights_normalize h kelvin_reply\<rparr>,
           [Fetch (insights_request one_vertex ''f1''), Normalize kelvin_reply],
           Some (JObj [(''f1_auto_auto'',
                        JObj [(''_cached_at_ts'', JNum (Fin 1700000000)),
                              (''response'', kelvin_reply)])]))
     \<and> read_prop kelvin_reply ''alerts'' = JUndef
     \<and> read_prop kelvin_reply ''temperature''
        = JArr [JObj [(''temp'', JNum (Fin 305)), (''date'', JStr ''2025-01-01'')]]"
  by (simp add: forced_refresh_of_empty_reply insights_load_of_kelvin_reply)
     (simp add: defaults_only_def kelvin_reply_def lookup_def)

section \<open>Choosing the cached entry in the insights view\<close>

lemma num_lt_trans: "num_lt a b \<Longrightarrow> num_lt b c \<Longrightarrow> num_lt a c"
  by (cases a; cases b; cases c) simp_all

lemma num_not_lt_lt_trans:
  "a \<noteq> NaN \<Longrightarrow> b \<noteq> NaN \<Longrightarrow> \<not> num_lt b a \<Longrightarrow> num_lt b c \<Longrightarrow> num_lt a c"
  by (cases a; cases b; cases c) simp_all

lemma num_lt_not_NaN: "num_lt a b \<Longrightarrow> a \<noteq> NaN \<and> b \<noteq> NaN"
  by (cases a; cases b) simp_all

lemma num_lt_NInf_lower: "num_lt b s \<Longrightarrow> num_lt NInf s"
  by (cases b; cases s) simp_all

text \<open>
  The loop invariant. With \<open>bestStamp\<close> a number, the loop either keeps its pair, when no
  usable timestamp is above it, or ends on the first of the greatest usable timestamps.
\<close>

lemma pick_best_first_greatest:
  assumes "stamps h cs = Inr ss" and "bs \<noteq> NaN"
  shows "\<exists>k s. pick_best h cs bk bs = Inr (k, s) \<and>
           (if \<forall>ks \<in> set (filter usable ss). \<not> num_lt bs (snd ks) then (k, s) = (bk, bs)
            else \<exists>pre post. filter usable ss = pre @ (k, s) # post
                   \<and> (\<forall>ks \<in> set pre. num_lt (snd ks) s)
                   \<and> (\<forall>ks \<in> set post. \<not> num_lt s (snd ks))
                   \<and> num_lt bs s)"
  using assms
proof (induction cs arbitrary: ss bk bs)
  case Nil
  then show ?case by simp
next
  case (Cons kv rest)
  obtain k0 v where kv: "kv = (k0, v)" by (cases kv)
  show ?case
  proof (cases "truthy v")
    case False
    with Cons.prems kv have "stamps h rest = Inr ss" by simp
    from Cons.IH [OF this Cons.prems(2), of bk] False kv show ?thesis by simp
  next
    case True
    with Cons.prems kv obtain s0 ss' where
      s0: "entry_stamp h v = Inr s0" and rest: "stamps h rest = Inr ss'"
      and ss: "ss = (k0, s0) # ss'"
      by (cases "entry_stamp h v"; cases "stamps h rest") auto
    show ?thesis
    proof (cases "truthy (JNum s0) \<and> num_lt bs s0")
      case win: True
      then have us: "usable (k0, s0)"
        by (auto simp: usable_def dest: num_lt_NInf_lower)
      have nn: "s0 \<noteq> NaN" using win by simp
      from Cons.IH [OF rest nn, of k0] obtain k s where
        pb: "pick_best h rest k0 s0 = Inr (k, s)" and
        sp: "if \<forall>ks \<in> set (filter usable ss'). \<not> num_lt s0 (snd ks) then (k, s) = (k0, s0)
             else \<exists>pre post. filter usable ss' = pre @ (k, s) # post
                   \<and> (\<forall>ks \<in> set pre. num_lt (snd ks) s)
                   \<and> (\<forall>ks \<in> set post. \<not> num_lt s (snd ks))
                   \<and> num_lt s0 s"
        by blast
      have run: "pick_best h (kv # rest) bk bs = Inr (k, s)"
        using kv True s0 win pb by simp
      have above: "\<not> (\<forall>ks \<in> set (filter usable ss). \<not> num_lt bs (snd ks))"
        using ss us win by auto
      have "\<exists>pre post. filter usable ss = pre @ (k, s) # post
                   \<and> (\<forall>ks \<in> set pre. num_lt (snd ks) s)
                   \<and> (\<forall>ks \<in> set post. \<not> num_lt s (snd ks))
                   \<and> num_lt bs s"
      proof (cases "\<forall>ks \<in> set (filter usable ss'). \<not> num_lt s0 (snd ks)")
        case top: True
        with sp have "(k, s) = (k0, s0)" by simp
        then have "filter usable ss = [] @ (k, s) # filter usable ss'"
          using ss us by simp
        moreover have "\<forall>ks \<in> set (filter usable ss'). \<not> num_lt s (snd ks)"
          using top \<open>(k, s) = (k0, s0)\<close> by simp
        moreover have "num_lt bs s"
          using win \<open>(k, s) = (k0, s0)\<close> by simp
        ultimately show ?thesis
          by (metis empty_iff list.set(1))
      next
        case False
        from sp obtain pre post where
          d: "filter usable ss' = pre @ (k, s) # post"
             "\<forall>ks \<in> set pre. num_lt (snd ks) s"
             "\<forall>ks \<in> set post. \<not> num_lt s (snd ks)"
             "num_lt s0 s"
          unfolding if_not_P [OF False] by blast
        have "filter usable ss = ((k0, s0) # pre) @ (k, s) # post"
          using ss us d(1) by simp
        moreover have "\<forall>ks \<in> set ((k0, s0) # pre). num_lt (snd ks) s"
          using d(2,4) by simp
        moreover have "num_lt bs s"
          using win d(4) num_lt_trans by blast
        ultimately show ?thesis
          using d(3) by blast
      qed
      with run above show ?thesis by auto
    next
      case lose: False
      from Cons.IH [OF rest Cons.prems(2), of bk] obtain k s where
        pb: "pick_best h rest bk bs = Inr (k, s)" and
        sp: "if \<forall>ks \<in> set (filter usable ss'). \<not> num_lt bs (snd ks) then (k, s) = (bk, bs)
             else \<exists>pre post. filter usable ss' = pre @ (k, s) # post
                   \<and> (\<forall>ks \<in> set pre. num_lt (snd ks) s)
                   \<and> (\<forall>ks \<in> set post. \<not> num_lt s (snd ks))
                   \<and> num_lt bs s"
        by blast
      have run: "pick_best h (kv # rest) bk bs = Inr (k, s)"
        using kv True s0 lose pb by auto
      have below: "usable (k0, s0) \<Longrightarrow> \<not> num_lt bs s0"
        using lose by (auto simp: usable_def)
      show ?thesis
      proof (cases "\<forall>ks \<in> set (filter usable ss'). \<not> num_lt bs (snd ks)")
        case top: True
        then have "\<forall>ks \<in> set (filter usable ss). \<not> num_lt bs (snd ks)"
          using ss below by auto
        with run sp top show ?thesis by simp
      next
        case False
        from sp obtain pre post where
          d: "filter usable ss' = pre @ (k, s) # post"
             "\<forall>ks \<in> set pre. num_lt (snd ks) s"
             "\<forall>ks \<in> set post. \<not> num_lt s (snd ks)"
             "num_lt bs s"
          unfolding if_not_P [OF False] by blast
        have above: "\<not> (\<forall>ks \<in> set (filter usable ss). \<not> num_lt bs (snd ks))"
          using False ss by auto
        have "\<exists>pre post. filter usable ss = pre @ (k, s) # post
                   \<and> (\<forall>ks \<in> set pre. num_lt (snd ks) s)
                   \<and> (\<forall>ks \<in> set post. \<not> num_lt s (snd ks))
                   \<and> num_lt bs s"
        proof (cases "usable (k0, s0)")
          case True
          then have "s0 \<noteq> NaN"
            by (auto simp: usable_def)
          then have "num_lt s0 s"
            using below [OF True] d(4) Cons.prems(2) num_not_lt_lt_trans by blast
          moreover have "filter usable ss = ((k0, s0) # pre) @ (k, s) # post"
            using ss True d(1) by simp
          ultimately show ?thesis
            using d(2,3,4) by (metis set_ConsD snd_conv)
        next
          case False
          then have "filter usable ss = pre @ (k, s) # post"
            using ss d(1) by simp
          then show ?thesis
            using d(2,3,4) by blast
        qed
        with run above show ?thesis by auto
      qed
    qed
  qed
qed

lemma usable_above_NInf: "usable ks \<Longrightarrow> num_lt NInf (snd ks)"
  by (simp add: usable_def)

text \<open>
  C10, as amended. The view considers exactly the keys that start with the farm id and
  \<^verbatim>\<open>_\<close>. Among their truthy entries it takes the first one with the greatest usable
  timestamp: \<^verbatim>\<open>Date.parse(response.timestamp)\<close> when that field is truthy, otherwise
  \<^verbatim>\<open>_cached_at_ts * 1000\<close> when that field is truthy, usable when it is a number other than
  \<^verbatim>\<open>NaN\<close>, \<^verbatim>\<open>0\<close> and \<^verbatim>\<open>-Infinity\<close>. When no entry has a usable timestamp it takes the first candidate
  key in the store's key order.
\<close>

theorem newest_cached_entry:
  assumes "stamps h (candidates fid savedCache) = Inr ss"
  shows "set (map fst (candidates fid savedCache))
           = {k \<in> set (map fst savedCache). starts_with (fid @ ''_'') k}
       \<and> (candidates fid savedCache = [] \<longrightarrow> best_key h fid savedCache = Inr None)
       \<and> (candidates fid savedCache \<noteq> [] \<and> filter usable ss = [] \<longrightarrow>
            best_key h fid savedCache = Inr (Some (fst (hd (candidates fid savedCache)))))
       \<and> (filter usable ss \<noteq> [] \<longrightarrow>
            (\<exists>pre k s post. filter usable ss = pre @ (k, s) # post
               \<and> (\<forall>ks \<in> set pre. num_lt (snd ks) s)
               \<and> (\<forall>ks \<in> set post. \<not> num_lt s (snd ks))
               \<and> best_key h fid savedCache = Inr (Some k)))"
proof (intro conjI impI)
  show "set (map fst (candidates fid savedCache))
          = {k \<in> set (map fst savedCache). starts_with (fid @ ''_'') k}"
    by (auto simp add: candidates_def)
next
  assume "candidates fid savedCache = []"
  then show "best_key h fid savedCache = Inr None"
    by (simp add: best_key_def)
next
  assume a: "candidates fid savedCache \<noteq> [] \<and> filter usable ss = []"
  then obtain k0 v0 rest where c: "candidates fid savedCache = (k0, v0) # rest"
    by (cases "candidates fid savedCache") auto
  from pick_best_first_greatest [OF assms, of NInf k0] a
  have "pick_best h (candidates fid savedCache) k0 NInf = Inr (k0, NInf)"
    by auto
  then show "best_key h fid savedCache = Inr (Some (fst (hd (candidates fid savedCache))))"
    using c by (simp add: best_key_def)
next
  assume a: "filter usable ss \<noteq> []"
  then obtain ks where ks: "ks \<in> set (filter usable ss)"
    by (cases "filter usable ss") auto
  then have "num_lt NInf (snd ks)"
    using usable_above_NInf by simp
  with ks have above: "\<not> (\<forall>ks \<in> set (filter usable ss). \<not> num_lt NInf (snd ks))"
    by blast
  have "ss \<noteq> []"
    using a by auto
  then have "candidates fid savedCache \<noteq> []"
    using assms by auto
  then obtain k0 v0 rest where c: "candidates fid savedCache = (k0, v0) # rest"
    by (cases "candidates fid savedCache") auto
  from pick_best_first_greatest [OF assms, of NInf k0] obtain k s where
    pb: "pick_best h (candidates fid savedCache) k0 NInf = Inr (k, s)" and
    sp: "if \<forall>ks \<in> set (filter usable ss). \<not> num_lt NInf (snd ks) then (k, s) = (k0, NInf)
         else \<exists>pre post. filter usable ss = pre @ (k, s) # post
                \<and> (\<forall>ks \<in> set pre. num_lt (snd ks) s)
                \<and> (\<forall>ks \<in> set post. \<not> num_lt s (snd ks))
                \<and> num_lt NInf s"
    by blast
  from sp obtain pre post where
    "filter usable ss = pre @ (k, s) # post" "\<forall>ks \<in> set pre. num_lt (snd ks) s"
    "\<forall>ks \<in> set post. \<not> num_lt s (snd ks)"
    unfolding if_not_P [OF above] by blast
  moreover have "best_key h fid savedCache = Inr (Some k)"
    using c pb by (simp add: best_key_def)
  ultimately show "\<exists>pre k s post. filter usable ss = pre @ (k, s) # post
               \<and> (\<forall>ks \<in> set pre. num_lt (snd ks) s)
               \<and> (\<forall>ks \<in> set post. \<not> num_lt s (snd ks))
               \<and> best_key h fid savedCache = Inr (Some k)"
    by blast
qed

lemma candidates_shared_store:
  "candidates ''f1'' shared_store =
     [(''f1_2025-01-01_2025-03-31'',
         JObj [(''_cached_at_ts'', JNum (Fin 1700000000)), (''response'', JObj [])]),
      (''f1_auto_auto'',
         JObj [(''_cached_at_ts'', JNum (Fin 1750000000)), (''response'', JObj [])])]"
  by (simp add: candidates_def shared_store_def starts_with_def)

lemma stamps_shared_store:
  "stamps h (candidates ''f1'' shared_store) =
     Inr [(''f1_2025-01-01_2025-03-31'', Fin 1700000000000),
          (''f1_auto_auto'', Fin 1750000000000)]"
  by (simp add: candidates_shared_store entry_stamp_def lookup_def)

lemma stamps_dashboard_store:
  "stamps h (candidates ''f1'' dashboard_store) =
     Inr [(''f1_2025-01-01_2025-03-31'', NInf), (''f1_2024-10-01_2024-12-31'', NInf)]"
  by (simp add: candidates_def dashboard_store_def starts_with_def entry_stamp_def lookup_def
        defaults_only_def)

lemma stamps_other_farm: "stamps h (candidates ''f3'' shared_store) = Inr []"
  by (simp add: candidates_def shared_store_def starts_with_def)

theorem newest_cached_entry_witness:
  "\<forall>h. stamps h (candidates ''f1'' shared_store) =
          Inr [(''f1_2025-01-01_2025-03-31'', Fin 1700000000000),
               (''f1_auto_auto'', Fin 1750000000000)]
     \<and> filter usable [(''f1_2025-01-01_2025-03-31'', Fin 1700000000000),
                       (''f1_auto_auto'', Fin 1750000000000)]
         = [(''f1_2025-01-01_2025-03-31'', Fin 1700000000000),
            (''f1_auto_auto'', Fin 1750000000000)]
     \<and> set (map fst (candidates ''f1'' shared_store))
         = {''f1_2025-01-01_2025-03-31'', ''f1_auto_auto''}
     \<and> best_key h ''f1'' shared_store = Inr (Some ''f1_auto_auto'')
     \<and> stamps h (candidates ''f1'' dashboard_store) =
          Inr [(''f1_2025-01-01_2025-03-31'', NInf), (''f1_2024-10-01_2024-12-31'', NInf)]
     \<and> filter usable [(''f1_2025-01-01_2025-03-31'', NInf), (''f1_2024-10-01_2024-12-31'', NInf)]
         = []
     \<and> best_key h ''f1'' dashboard_store = Inr (Some ''f1_2025-01-01_2025-03-31'')
     \<and> candidates ''f3'' shared_store = []
     \<and> best_key h ''f3'' shared_store = Inr None"
  (is "\<forall>h. ?st h \<and> ?us \<and> ?keys \<and> ?best h \<and> ?dst h \<and> ?dus \<and> ?dbest h \<and> ?none \<and> ?nbest h")
proof
  fix h
  have us: ?us
    by (simp add: usable_def)
  note t = newest_cached_entry [OF stamps_shared_store, of h]
  have keys: ?keys
    by (auto simp add: candidates_shared_store)
  from t us obtain pre k s post where
    d: "[(''f1_2025-01-01_2025-03-31'', Fin 1700000000000),
         (''f1_auto_auto'', Fin 1750000000000)] = pre @ (k, s) # post"
       "\<forall>ks \<in> set pre. num_lt (snd ks) s" "\<forall>ks \<in> set post. \<not> num_lt s (snd ks)"
       "best_key h ''f1'' shared_store = Inr (Some k)"
    by auto
  have "k = ''f1_auto_auto''"
  proof (cases pre)
    case Nil
    with d(1,3) show ?thesis by auto
  next
    case (Cons p pre')
    with d(1) show ?thesis
      by (cases pre') auto
  qed
  with d(4) have best: "?best h"
    by simp
  have dus: ?dus
    by (simp add: usable_def)
  have dc: "candidates ''f1'' dashboard_store = dashboard_store"
    by (simp add: candidates_def dashboard_store_def starts_with_def)
  have dbest: "?dbest h"
    using newest_cached_entry [OF stamps_dashboard_store, of h] dus
    by (simp add: dc) (simp add: dashboard_store_def)
  have none: ?none
    by (simp add: candidates_def shared_store_def starts_with_def)
  have nbest: "?nbest h"
    using newest_cached_entry [OF stamps_other_farm, of h] none by simp
  show "?st h \<and> ?us \<and> ?keys \<and> ?best h \<and> ?dst h \<and> ?dus \<and> ?dbest h \<and> ?none \<and> ?nbest h"
    using stamps_shared_store us keys best stamps_dashboard_store dus dbest none nbest
    by blast
qed

text \<open>
  The claim as stated takes the greatest timestamp, with \<^verbatim>\<open>_cached_at_ts\<close> read as epoch
  seconds. An entry whose \<^verbatim>\<open>_cached_at_ts\<close> is \<^verbatim>\<open>0\<close> fails the test
  \<^verbatim>\<open>val._cached_at_ts ? ... : -Infinity\<close> and counts as having no timestamp: the entry
  written five seconds earlier is chosen.
\<close>

theorem newest_cached_entry_counterexample:
  "\<forall>h. candidates ''f1'' epoch_store = epoch_store
     \<and> read_prop (lookup epoch_store ''f1_a'') ''_cached_at_ts'' = JNum (Fin 0)
     \<and> read_prop (lookup epoch_store ''f1_b'') ''_cached_at_ts'' = JNum (Fin (- 5))
     \<and> stamps h (candidates ''f1'' epoch_store) = Inr [(''f1_a'', NInf), (''f1_b'', Fin (- 5000))]
     \<and> best_key h ''f1'' epoch_store = Inr (Some ''f1_b'')"
  by (simp add: candidates_def epoch_store_def starts_with_def lookup_def entry_stamp_def
        best_key_def)

section \<open>Visualization points\<close>

text \<open>
  A point of the first two sources always carries a number: \<^verbatim>\<open>Number(... ?? null)\<close> turns
  the missing moisture into \<^verbatim>\<open>Number(null)\<close>, which is \<^verbatim>\<open>0\<close>. Only the centroid point
  can carry \<^verbatim>\<open>null\<close>.
\<close>

lemma moisture_point_has_number:
  "moisture_point h p = Inr pt \<Longrightarrow> \<exists>m. p_moisture pt = Some m"
  by (auto simp add: moisture_point_def ebind_def split: if_splits sum.splits)

lemma sample_point_has_number:
  "sample_point h s = Inr pt \<Longrightarrow> \<exists>m. p_moisture pt = Some m"
  by (auto simp add: sample_point_def ebind_def split: if_splits sum.splits)

lemma moisture_point_unresolved:
  assumes "\<not> nullish p"
    and "nullish (read_prop p ''moisture'')" and "nullish (read_prop p ''value'')"
    and "nullish (read_prop p ''m'')"
    and "moisture_point h p = Inr pt"
  shows "p_moisture pt = Some (Fin 0)"
  using assms
  by (auto simp add: moisture_point_def ebind_def nullish_def split: sum.splits)

lemma triangle_polygon:
  "normalizeToLatLngArray h (optional_prop triangle_farm ''coordinates'')
     = Inr [(Fin 23, Fin 72), (Fin 24, Fin 72), (Fin 25, Fin 75)]"
  by (simp add: triangle_farm_def optional_prop_def lookup_def normalizeToLatLngArray_def
        object_vertex_def nullish_def isNaN_def)

text \<open>
  C8 at three payloads over the same farm. A per-point sample and a soil sample without any
  moisture field are kept, with moisture \<^verbatim>\<open>0\<close>: on the map that is the red of the driest
  band, not the grey of an unknown value. A payload without points gives the centroid with
  moisture \<^verbatim>\<open>null\<close>.
\<close>

theorem soilPoints_unresolved_moisture:
  "\<forall>h. soilPoints h
          (JObj [(''soil_moisture_points'',
                  JArr [JObj [(''lat'', JNum (Fin 23)), (''lng'', JNum (Fin 72.5))]])])
          triangle_farm
        = Inr [\<lparr>p_lat = Fin 23, p_lng = Fin 72.5, p_moisture = Some (Fin 0), p_date = JNull\<rparr>]
     \<and> soilPoints h
          (JObj [(''soil_samples'',
                  JArr [JObj [(''location'',
                              JObj [(''lat'', JNum (Fin 23)), (''lng'', JNum (Fin 72.5))])]])])
          triangle_farm
        = Inr [\<lparr>p_lat = Fin 23, p_lng = Fin 72.5, p_moisture = Some (Fin 0), p_date = JNull\<rparr>]
     \<and> soilPoints h (JObj []) triangle_farm
        = Inr [\<lparr>p_lat = Fin 24, p_lng = Fin 73, p_moisture = None, p_date = JNull\<rparr>]
     \<and> moistureToColor (Some (Fin 0)) = ''#e11d48''
     \<and> moistureToColor None = ''#888''"
proof
  fix h
  have one: "soilPoints h
          (JObj [(''soil_moisture_points'',
                  JArr [JObj [(''lat'', JNum (Fin 23)), (''lng'', JNum (Fin 72.5))]])])
          triangle_farm
        = Inr [\<lparr>p_lat = Fin 23, p_lng = Fin 72.5, p_moisture = Some (Fin 0), p_date = JNull\<rparr>]"
    by (simp only: soilPoints_def triangle_polygon ebind_Inr)
       (simp add: optional_prop_def lookup_def moisture_point_def nullish_def located_def
          isNaN_def read_index_def)
  have two: "soilPoints h
          (JObj [(''soil_samples'',
                  JArr [JObj [(''location'',
                              JObj [(''lat'', JNum (Fin 23)), (''lng'', JNum (Fin 72.5))])]])])
          triangle_farm
        = Inr [\<lparr>p_lat = Fin 23, p_lng = Fin 72.5, p_moisture = Some (Fin 0), p_date = JNull\<rparr>]"
    by (simp only: soilPoints_def triangle_polygon ebind_Inr)
       (simp add: optional_prop_def lookup_def sample_point_def nullish_def located_def
          isNaN_def)
  have three: "soilPoints h (JObj []) triangle_farm
        = Inr [\<lparr>p_lat = Fin 24, p_lng = Fin 73, p_moisture = None, p_date = JNull\<rparr>]"
    by (simp only: soilPoints_def triangle_polygon ebind_Inr)
       (simp add: optional_prop_def lookup_def nullish_def centroidOfLatLngs_def
          centroid_moisture_def)
  have colors: "moistureToColor (Some (Fin 0)) = ''#e11d48''" "moistureToColor None = ''#888''"
    by (simp_all add: moistureToColor_def isNaN_def)
  show "soilPoints h
          (JObj [(''soil_moisture_points'',
                  JArr [JObj [(''lat'', JNum (Fin 23)), (''lng'', JNum (Fin 72.5))]])])
          triangle_farm
        = Inr [\<lparr>p_lat = Fin 23, p_lng = Fin 72.5, p_moisture = Some (Fin 0), p_date = JNull\<rparr>]
     \<and> soilPoints h
          (JObj [(''soil_samples'',
                  JArr [JObj [(''location'',
                              JObj [(''lat'', JNum (Fin 23)), (''lng'', JNum (Fin 72.5))])]])])
          triangle_farm
        = Inr [\<lparr>p_lat = Fin 23, p_lng = Fin 72.5, p_moisture = Some (Fin 0), p_date = JNull\<rparr>]
     \<and> soilPoints h (JObj []) triangle_farm
        = Inr [\<lparr>p_lat = Fin 24, p_lng = Fin 73, p_moisture = None, p_date = JNull\<rparr>]
     \<and> moistureToColor (Some (Fin 0)) = ''#e11d48''
     \<and> moistureToColor None = ''#888''"
    using one two three colors by blast
qed

end
